theory Spec2Isabelle
  imports Complex_Main "HOL-Library.AList"
begin

section \<open>Data model\<close>

text \<open>
  A value decoded from a JSON body, as Python's decoder delivers it: \<open>None\<close>, a bool, a
  number, a \<open>str\<close>, a \<open>list\<close> or a \<open>dict\<close> (an association list, looked up with
  \<open>map_of\<close>).
\<close>

datatype json = JNull | JBool bool | JNum real | JStr string | JArr "json list"
  | JObj "(string \<times> json) list"

text \<open>
  The client raises one exception class of its own (\<open>EmailListVerifyError\<close>, carrying a
  message); the other constructors are the built-in exceptions that the modelled code can
  let through.
\<close>

datatype error = EmailListVerifyError string | AttributeError | ValueError | OSError
  | IndexError

type_synonym params = "(string \<times> string) list"

text \<open>A multipart part: field name, file name, content and content type.\<close>

type_synonym upload = "string \<times> string \<times> string \<times> string"

record request =
  url :: string
  http_method :: string
  query :: params
  form :: "params option"
  files :: "upload option"

text \<open>
  What the HTTP library hands back for one request: either it raises an \<open>HTTPError\<close>
  (whose \<open>str()\<close> is the message), or it returns a response. The response carries its
  status code, its body text, the result of decoding the body as JSON (\<open>None\<close> when the
  decoder raises \<open>ValueError\<close>), and the text of the error that \<open>raise_for_status\<close>
  raises for it.
\<close>

record response =
  status_code :: nat
  body_text :: string
  json_body :: "json option"
  status_error :: string

datatype http_reply = Http_Error string | Http_Response response

text \<open>The observable effects: a request sent (when, what, and the reply) and a sleep.\<close>

datatype event = Exchange real request http_reply | Slept real

datatype fs_entry = Regular string | Unreadable

text \<open>
  The world the client runs in. \<open>replies\<close> is the stream of replies of the remote
  service, \<open>sent\<close> the number of requests made so far; \<open>lag n\<close> is the time the \<open>n\<close>-th
  effect takes (the latency of a request, the overshoot of a sleep). \<open>render\<close> is Python's
  \<open>str()\<close> on a decoded value that is not a \<open>str\<close>, \<open>strftime\<close> and \<open>isoformat\<close> format the
  current time.
\<close>

record world =
  clock :: real
  sent :: nat
  replies :: "nat \<Rightarrow> http_reply"
  lag :: "nat \<Rightarrow> real"
  events :: "event list"
  fs :: "string \<Rightarrow> fs_entry option"
  render :: "json \<Rightarrow> string"
  strftime :: "real \<Rightarrow> string"
  isoformat :: "real \<Rightarrow> string"

record client =
  api_key :: string
  base_url :: string
  timeout_s :: real

section \<open>Strings\<close>

definition rstrip_chars :: "char \<Rightarrow> string \<Rightarrow> string" where
  "rstrip_chars c s = rev (dropWhile (\<lambda>x. x = c) (rev s))"

definition lstrip_chars :: "char \<Rightarrow> string \<Rightarrow> string" where
  "lstrip_chars c s = dropWhile (\<lambda>x. x = c) s"

text \<open>
  A string is a list of \<^typ>\<open>char\<close>, read as the code points of a Python \<open>str\<close>; a
  \<^typ>\<open>char\<close> has eight bits, so the model covers text whose code points are below 256,
  and text with other code points is outside it.

  The white space that \<open>str.strip()\<close> removes from both ends: among the code points below
  256 these are 0x09 to 0x0D, 0x1C to 0x20, 0x85 and 0xA0.
\<close>

definition is_space :: "char \<Rightarrow> bool" where
  "is_space c = (c \<in> set [CHR '' '', CHR 0x09, CHR 0x0A, CHR 0x0B, CHR 0x0C, CHR 0x0D,
                            CHR 0x1C, CHR 0x1D, CHR 0x1E, CHR 0x1F, CHR 0x85, CHR 0xA0])"

definition strip :: "string \<Rightarrow> string" where
  "strip s = rev (dropWhile is_space (rev (dropWhile is_space s)))"

text \<open>Decimal rendering of an integer, as an f-string formats it.\<close>

definition digit_char :: "nat \<Rightarrow> char" where
  "digit_char d = ''0123456789'' ! d"

fun show_nat :: "nat \<Rightarrow> string" where
  "show_nat n = (if n < 10 then [digit_char n] else show_nat (n div 10) @ [digit_char (n mod 10)])"

declare show_nat.simps [simp del]

definition show_int :: "int \<Rightarrow> string" where
  "show_int i = (if i < 0 then CHR ''-'' # show_nat (nat (- i)) else show_nat (nat i))"

definition py_str :: "world \<Rightarrow> json \<Rightarrow> string" where
  "py_str w j = (case j of JStr s \<Rightarrow> s | _ \<Rightarrow> render w j)"

section \<open>Effects\<close>

text \<open>\<open>self._client.request(...)\<close>: the next reply of the service, after its latency.\<close>

definition http_request :: "request \<Rightarrow> world \<Rightarrow> http_reply \<times> world" where
  "http_request rq w =
     (replies w (sent w),
      w\<lparr>clock := clock w + lag w (length (events w)),
        sent := Suc (sent w),
        events := events w @ [Exchange (clock w) rq (replies w (sent w))]\<rparr>)"

text \<open>\<open>time.sleep(d)\<close>: raises \<open>ValueError\<close> for a negative length.\<close>

definition time_sleep :: "real \<Rightarrow> world \<Rightarrow> (error + unit) \<times> world" where
  "time_sleep d w =
     (if d < 0 then (Inl ValueError, w)
      else (Inr (),
            w\<lparr>clock := clock w + d + lag w (length (events w)),
              events := events w @ [Slept d]\<rparr>))"

section \<open>The client (src/src/emaillistverify/client.py)\<close>

definition new_client :: "string \<Rightarrow> string \<Rightarrow> real \<Rightarrow> error + client" where
  "new_client key base t =
     (if key = [] then Inl (EmailListVerifyError ''API key is required'')
      else Inr \<lparr>api_key = key, base_url = rstrip_chars CHR ''/'' base, timeout_s = t\<rparr>)"

definition url_of :: "client \<Rightarrow> string \<Rightarrow> string" where
  "url_of c path = base_url c @ ''/'' @ lstrip_chars CHR ''/'' path"

text \<open>\<open>raise_for_status\<close> of the HTTP library raises unless the status is 2xx.\<close>

definition is_success :: "nat \<Rightarrow> bool" where
  "is_success code = (200 \<le> code \<and> code \<le> 299)"

text \<open>
  The body of the \<open>try\<close> in \<open>_make_request\<close> once the library call has produced its reply:
  the 401 check, \<open>raise_for_status\<close>, the JSON decoding with its fallback to the trimmed text,
  and the handler that wraps a library error.
\<close>

definition response_result :: "http_reply \<Rightarrow> error + json" where
  "response_result rp =
     (case rp of
        Http_Error msg \<Rightarrow> Inl (EmailListVerifyError (''Request failed: '' @ msg))
      | Http_Response r \<Rightarrow>
          if status_code r = 401 then Inl (EmailListVerifyError ''Unauthorized: invalid API key'')
          else if \<not> is_success (status_code r)
            then Inl (EmailListVerifyError (''Request failed: '' @ status_error r))
          else (case json_body r of
                  Some j \<Rightarrow> Inr j
                | None \<Rightarrow> Inr (JStr (strip (body_text r)))))"

definition make_request ::
  "client \<Rightarrow> string \<Rightarrow> string \<Rightarrow> params option \<Rightarrow> params option \<Rightarrow> upload option \<Rightarrow> world
     \<Rightarrow> (error + json) \<times> world" where
  "make_request c endpoint meth ps dat fls w =
     (let u = url_of c endpoint;
          ps' = AList.update ''secret'' (api_key c) (case ps of None \<Rightarrow> [] | Some p \<Rightarrow> p);
          (rp, w1) = http_request \<lparr>url = u, http_method = meth, query = ps', form = dat,
                                   files = fls\<rparr> w
      in (response_result rp, w1))"

definition verify_email :: "client \<Rightarrow> string \<Rightarrow> world \<Rightarrow> (error + string) \<times> world" where
  "verify_email c email w =
     (if email = [] then (Inl (EmailListVerifyError ''Email address is required''), w)
      else (case make_request c ''verifyEmail'' ''GET'' (Some [(''email'', email)]) None None w of
              (Inl e, w1) \<Rightarrow> (Inl e, w1)
            | (Inr (JStr s), w1) \<Rightarrow> (Inr s, w1)
            | (Inr j, w1) \<Rightarrow> (Inr (py_str w1 j), w1)))"

definition verify_email_detailed :: "client \<Rightarrow> string \<Rightarrow> world \<Rightarrow> (error + json) \<times> world" where
  "verify_email_detailed c email w =
     (if email = [] then (Inl (EmailListVerifyError ''Email address is required''), w)
      else (case make_request c ''verifyEmailDetailed'' ''GET'' (Some [(''email'', email)])
                   None None w of
              (Inl e, w1) \<Rightarrow> (Inl e, w1)
            | (Inr (JStr s), w1) \<Rightarrow>
                (Inr (JObj [(''email'', JStr email), (''status'', JStr s),
                            (''timestamp'', JStr (isoformat w1 (clock w1)))]), w1)
            | (Inr j, w1) \<Rightarrow> (Inr j, w1)))"

text \<open>
  The \<open>for\<close> loop of \<open>verify_emails\<close>, which both modules that have it write in the same
  words; \<open>verify\<close> is the module's own \<open>verify_email\<close>, and \<open>results\<close> is the dictionary
  built so far (assigning to a key that is present replaces its value in place). Only
  \<open>EmailListVerifyError\<close> is caught.
\<close>

fun verify_emails_loop ::
  "(string \<Rightarrow> world \<Rightarrow> (error + string) \<times> world) \<Rightarrow> real \<Rightarrow> string list \<Rightarrow> params \<Rightarrow> world
     \<Rightarrow> (error + params) \<times> world" where
  "verify_emails_loop verify delay [] results w = (Inr results, w)"
| "verify_emails_loop verify delay (email # rest) results w =
     (case verify email w of
        (Inr s, w1) \<Rightarrow>
          if delay > 0 then
            (case time_sleep delay w1 of
               (Inl e, w2) \<Rightarrow> (Inl e, w2)
             | (Inr u, w2) \<Rightarrow>
                 verify_emails_loop verify delay rest (AList.update email s results) w2)
          else verify_emails_loop verify delay rest (AList.update email s results) w1
      | (Inl (EmailListVerifyError m), w1) \<Rightarrow>
          verify_emails_loop verify delay rest (AList.update email (''error: '' @ m) results) w1
      | (Inl e, w1) \<Rightarrow> (Inl e, w1))"

definition verify_emails ::
  "client \<Rightarrow> string list \<Rightarrow> real \<Rightarrow> world \<Rightarrow> (error + params) \<times> world" where
  "verify_emails c emails delay w = verify_emails_loop (verify_email c) delay emails [] w"

definition get_credits :: "client \<Rightarrow> world \<Rightarrow> (error + json) \<times> world" where
  "get_credits c w =
     (case make_request c ''getCredits'' ''GET'' None None None w of
        (Inl e, w1) \<Rightarrow> (Inl e, w1)
      | (Inr (JStr s), w1) \<Rightarrow> (Inr (JObj [(''credits'', JStr s)]), w1)
      | (Inr j, w1) \<Rightarrow> (Inr j, w1))"

definition bulk_upload ::
  "client \<Rightarrow> string \<Rightarrow> string option \<Rightarrow> world \<Rightarrow> (error + json) \<times> world" where
  "bulk_upload c file_path filename w =
     (case fs w file_path of
        None \<Rightarrow> (Inl (EmailListVerifyError (''File not found: '' @ file_path)), w)
      | Some entry \<Rightarrow>
          (let fname = (case filename of
                          None \<Rightarrow> ''bulk_verify_'' @ strftime w (clock w) @ ''.csv''
                        | Some f \<Rightarrow> f)
           in case entry of
                Unreadable \<Rightarrow> (Inl OSError, w)
              | Regular content \<Rightarrow>
                  (case make_request c ''verifApiFile'' ''POST'' (Some [(''filename'', fname)]) None
                          (Some (''file_contents'', fname, content, ''text/csv'')) w of
                     (Inl e, w1) \<Rightarrow> (Inl e, w1)
                   | (Inr (JStr s), w1) \<Rightarrow> (Inr (JStr s), w1)
                   | (Inr (JObj kvs), w1) \<Rightarrow>
                       (case map_of kvs ''file_id'' of
                          Some v \<Rightarrow> (Inr v, w1)
                        | None \<Rightarrow>
                            (Inl (EmailListVerifyError ''Failed to get file ID from response''), w1))
                   | (Inr j, w1) \<Rightarrow>
                       (Inl (EmailListVerifyError ''Failed to get file ID from response''), w1))))"

definition get_bulk_status :: "client \<Rightarrow> string \<Rightarrow> world \<Rightarrow> (error + json) \<times> world" where
  "get_bulk_status c file_id w =
     (if file_id = [] then (Inl (EmailListVerifyError ''File ID is required''), w)
      else make_request c ''getApiFileInfo'' ''GET'' (Some [(''file_id'', file_id)]) None None w)"

definition download_bulk_result ::
  "client \<Rightarrow> string \<Rightarrow> string \<Rightarrow> world \<Rightarrow> (error + json) \<times> world" where
  "download_bulk_result c file_id result_type w =
     (if file_id = [] then (Inl (EmailListVerifyError ''File ID is required''), w)
      else if result_type \<notin> set [''all'', ''clean'']
        then (Inl (EmailListVerifyError (''result_type must be 'all' or 'clean'' @ [CHR 0x27])), w)
      else make_request c
             (if result_type = ''all'' then ''downloadApiFile'' else ''downloadCleanFile'')
             ''GET'' (Some [(''file_id'', file_id)]) None None w)"

definition timeout_error :: "int \<Rightarrow> error" where
  "timeout_error max_wait =
     EmailListVerifyError
       (''Timeout waiting for bulk verification (waited '' @ show_int max_wait @ ''s)'')"

definition failed_error :: "world \<Rightarrow> (string \<times> json) list \<Rightarrow> error" where
  "failed_error w kvs =
     EmailListVerifyError
       (''Bulk verification failed: '' @
        (case map_of kvs ''error'' of None \<Rightarrow> ''Unknown error'' | Some v \<Rightarrow> py_str w v))"

text \<open>
  The \<open>while\<close> loop of \<open>wait_for_bulk_completion\<close>. The loop runs as long as the clock
  allows, so the model counts iterations down from \<open>fuel\<close>: \<open>None\<close> means that the fuel ran
  out before the loop ended. The elapsed time is tested before anything else, as the
  \<open>while\<close> condition is.
\<close>

fun wait_loop ::
  "nat \<Rightarrow> client \<Rightarrow> string \<Rightarrow> int \<Rightarrow> int \<Rightarrow> real \<Rightarrow> world \<Rightarrow> ((error + json) \<times> world) option"
  where
  "wait_loop 0 c file_id check_interval max_wait start_time w =
     (if clock w - start_time < real_of_int max_wait then None
      else Some (Inl (timeout_error max_wait), w))"
| "wait_loop (Suc fuel) c file_id check_interval max_wait start_time w =
     (if clock w - start_time < real_of_int max_wait then
        (case get_bulk_status c file_id w of
           (Inl e, w1) \<Rightarrow> Some (Inl e, w1)
         | (Inr (JObj kvs), w1) \<Rightarrow>
             if map_of kvs ''status'' = Some (JStr ''completed'') then Some (Inr (JObj kvs), w1)
             else if map_of kvs ''status'' = Some (JStr ''failed'')
               then Some (Inl (failed_error w1 kvs), w1)
             else (case time_sleep (real_of_int check_interval) w1 of
                     (Inl e, w2) \<Rightarrow> Some (Inl e, w2)
                   | (Inr u, w2) \<Rightarrow> wait_loop fuel c file_id check_interval max_wait start_time w2)
         | (Inr j, w1) \<Rightarrow> Some (Inl AttributeError, w1))
      else Some (Inl (timeout_error max_wait), w))"

definition wait_for_bulk_completion ::
  "nat \<Rightarrow> client \<Rightarrow> string \<Rightarrow> int \<Rightarrow> int \<Rightarrow> world \<Rightarrow> ((error + json) \<times> world) option" where
  "wait_for_bulk_completion fuel c file_id check_interval max_wait w =
     wait_loop fuel c file_id check_interval max_wait (clock w) w"

section \<open>The requests-based module (src/emaillistverify.py)\<close>

text \<open>
  The definitions of this module that differ from the client above carry the prefix
  \<open>rq_\<close>. Its \<open>_make_request\<close> has no 401 check, its library's \<open>raise_for_status\<close> raises
  for 4xx and 5xx only, and the text fallback is not trimmed.
\<close>

definition rq_base_url :: string where
  "rq_base_url = ''https://apps.emaillistverify.com/api''"

definition rq_raises_for_status :: "nat \<Rightarrow> bool" where
  "rq_raises_for_status code = (400 \<le> code \<and> code < 600)"

definition rq_response_result :: "http_reply \<Rightarrow> error + json" where
  "rq_response_result rp =
     (case rp of
        Http_Error msg \<Rightarrow> Inl (EmailListVerifyError (''Request failed: '' @ msg))
      | Http_Response r \<Rightarrow>
          if rq_raises_for_status (status_code r)
            then Inl (EmailListVerifyError (''Request failed: '' @ status_error r))
          else (case json_body r of
                  Some j \<Rightarrow> Inr j
                | None \<Rightarrow> Inr (JStr (body_text r))))"

definition rq_make_request ::
  "client \<Rightarrow> string \<Rightarrow> string \<Rightarrow> params option \<Rightarrow> params option \<Rightarrow> upload option \<Rightarrow> world
     \<Rightarrow> (error + json) \<times> world" where
  "rq_make_request c endpoint meth ps dat fls w =
     (let u = rq_base_url @ ''/'' @ endpoint;
          ps' = AList.update ''secret'' (api_key c) (case ps of None \<Rightarrow> [] | Some p \<Rightarrow> p);
          (rp, w1) = http_request \<lparr>url = u, http_method = meth, query = ps', form = dat,
                                   files = fls\<rparr> w
      in (rq_response_result rp, w1))"

definition rq_bulk_upload ::
  "client \<Rightarrow> string \<Rightarrow> string option \<Rightarrow> world \<Rightarrow> (error + json) \<times> world" where
  "rq_bulk_upload c file_path filename w =
     (case fs w file_path of
        None \<Rightarrow> (Inl (EmailListVerifyError (''File not found: '' @ file_path)), w)
      | Some entry \<Rightarrow>
          (let fname = (case filename of
                          None \<Rightarrow> ''bulk_verify_'' @ strftime w (clock w) @ ''.csv''
                        | Some f \<Rightarrow> f)
           in case entry of
                Unreadable \<Rightarrow> (Inl OSError, w)
              | Regular content \<Rightarrow>
                  (case rq_make_request c ''verifApiFile'' ''POST'' (Some [(''filename'', fname)])
                          None (Some (''file_contents'', fname, content, ''text/csv'')) w of
                     (Inl e, w1) \<Rightarrow> (Inl e, w1)
                   | (Inr (JStr s), w1) \<Rightarrow> (Inr (JStr (strip s)), w1)
                   | (Inr (JObj kvs), w1) \<Rightarrow>
                       (case map_of kvs ''file_id'' of
                          Some v \<Rightarrow> (Inr v, w1)
                        | None \<Rightarrow>
                            (Inl (EmailListVerifyError ''Failed to get file ID from response''), w1))
                   | (Inr j, w1) \<Rightarrow>
                       (Inl (EmailListVerifyError ''Failed to get file ID from response''), w1))))"

subsection \<open>\<open>EmailValidator.extract_domain\<close>\<close>

text \<open>\<open>s.split(c)\<close> for a one-character separator.\<close>

fun split_on :: "char \<Rightarrow> string \<Rightarrow> string list" where
  "split_on c [] = [[]]"
| "split_on c (x # xs) =
     (if x = c then [] # split_on c xs
      else (case split_on c xs of [] \<Rightarrow> [[x]] | y # ys \<Rightarrow> (x # y) # ys))"

text \<open>
  \<open>str.lower()\<close> on code points below 256: the letters A to Z, and the capital letters
  0xC0 to 0xDE of Latin-1 (0xD7, the multiplication sign, is not one), each move up by
  0x20; every other code point stays.
\<close>

definition latin1_capitals :: string where
  "latin1_capitals = [CHR 0xC0, CHR 0xC1, CHR 0xC2, CHR 0xC3, CHR 0xC4, CHR 0xC5, CHR 0xC6, CHR 0xC7,
      CHR 0xC8, CHR 0xC9, CHR 0xCA, CHR 0xCB, CHR 0xCC, CHR 0xCD, CHR 0xCE, CHR 0xCF,
      CHR 0xD0, CHR 0xD1, CHR 0xD2, CHR 0xD3, CHR 0xD4, CHR 0xD5, CHR 0xD6, CHR 0xD8,
      CHR 0xD9, CHR 0xDA, CHR 0xDB, CHR 0xDC, CHR 0xDD, CHR 0xDE]"

definition latin1_smalls :: string where
  "latin1_smalls = [CHR 0xE0, CHR 0xE1, CHR 0xE2, CHR 0xE3, CHR 0xE4, CHR 0xE5, CHR 0xE6, CHR 0xE7,
      CHR 0xE8, CHR 0xE9, CHR 0xEA, CHR 0xEB, CHR 0xEC, CHR 0xED, CHR 0xEE, CHR 0xEF,
      CHR 0xF0, CHR 0xF1, CHR 0xF2, CHR 0xF3, CHR 0xF4, CHR 0xF5, CHR 0xF6, CHR 0xF8,
      CHR 0xF9, CHR 0xFA, CHR 0xFB, CHR 0xFC, CHR 0xFD, CHR 0xFE]"

definition lower_char :: "char \<Rightarrow> char" where
  "lower_char c =
     (case map_of (zip (''ABCDEFGHIJKLMNOPQRSTUVWXYZ'' @ latin1_capitals)
                       (''abcdefghijklmnopqrstuvwxyz'' @ latin1_smalls)) c of
        Some l \<Rightarrow> l
      | None \<Rightarrow> c)"

definition lower :: "string \<Rightarrow> string" where
  "lower s = map lower_char s"

definition extract_domain :: "string \<Rightarrow> error + string option" where
  "extract_domain email =
     (if CHR ''@'' \<in> set email then
        (case split_on CHR ''@'' email of
           a # b # rest \<Rightarrow> Inr (Some (lower b))
         | _ \<Rightarrow> Inl IndexError)
      else Inr None)"

section \<open>The minimal module (src/emaillistverify/__init__.py)\<close>

text \<open>
  Its \<open>verify_email\<close> (prefix \<open>sv_\<close>) builds the query itself and returns the trimmed body
  text; its \<open>verify_emails\<close> is the loop above.
\<close>

definition sv_verify_email :: "client \<Rightarrow> string \<Rightarrow> world \<Rightarrow> (error + string) \<times> world" where
  "sv_verify_email c email w =
     (if email = [] then (Inl (EmailListVerifyError ''Email address is required''), w)
      else (case http_request \<lparr>url = rq_base_url @ ''/verifyEmail'', http_method = ''GET'',
                                query = [(''secret'', api_key c), (''email'', email)],
                                form = None, files = None\<rparr> w of
              (Http_Error msg, w1) \<Rightarrow> (Inl (EmailListVerifyError (''Request failed: '' @ msg)), w1)
            | (Http_Response r, w1) \<Rightarrow>
                if rq_raises_for_status (status_code r)
                  then (Inl (EmailListVerifyError (''Request failed: '' @ status_error r)), w1)
                else (Inr (strip (body_text r)), w1)))"

definition sv_verify_emails ::
  "client \<Rightarrow> string list \<Rightarrow> real \<Rightarrow> world \<Rightarrow> (error + params) \<times> world" where
  "sv_verify_emails c emails delay w = verify_emails_loop (sv_verify_email c) delay emails [] w"

section \<open>Reading a run\<close>

text \<open>The events that a call added to the log of the world it started in.\<close>

definition new_events :: "world \<Rightarrow> world \<Rightarrow> event list" where
  "new_events w w' = drop (length (events w)) (events w')"

fun is_exchange :: "event \<Rightarrow> bool" where
  "is_exchange (Exchange t rq rp) = True"
| "is_exchange (Slept d) = False"

fun issued :: "event \<Rightarrow> real" where
  "issued (Exchange t rq rp) = t"
| "issued (Slept d) = 0"

text \<open>
  The status record that a poll observes: the decoded reply of the exchange when it is a
  dictionary, nothing when the request failed or the reply decodes to anything else.
\<close>

fun observed :: "event \<Rightarrow> json option" where
  "observed (Exchange t rq rp) =
     (case response_result rp of Inr (JObj kvs) \<Rightarrow> Some (JObj kvs) | _ \<Rightarrow> None)"
| "observed (Slept d) = None"

fun has_status :: "string \<Rightarrow> json \<Rightarrow> bool" where
  "has_status s (JObj kvs) = (map_of kvs ''status'' = Some (JStr s))"
| "has_status s j = False"

definition observes_completed :: "event \<Rightarrow> bool" where
  "observes_completed e = (case observed e of Some j \<Rightarrow> has_status ''completed'' j | None \<Rightarrow> False)"

definition observes_failed :: "event \<Rightarrow> bool" where
  "observes_failed e = (case observed e of Some j \<Rightarrow> has_status ''failed'' j | None \<Rightarrow> False)"

definition observes_pending :: "event \<Rightarrow> bool" where
  "observes_pending e =
     (case observed e of
        Some j \<Rightarrow> \<not> has_status ''completed'' j \<and> \<not> has_status ''failed'' j
      | None \<Rightarrow> False)"

fun is_remote_failure :: "error + json \<Rightarrow> bool" where
  "is_remote_failure (Inl (EmailListVerifyError m)) =
     (take 26 m = ''Bulk verification failed: '')"
| "is_remote_failure r = False"

subsection \<open>One round of the wait loop\<close>

text \<open>The event of a status poll made in world \<open>w\<close>, the world after it, and the world after a sleep.\<close>

definition poll_event :: "client \<Rightarrow> string \<Rightarrow> world \<Rightarrow> event" where
  "poll_event c file_id w =
     Exchange (clock w)
       \<lparr>url = url_of c ''getApiFileInfo'', http_method = ''GET'',
        query = [(''file_id'', file_id), (''secret'', api_key c)], form = None, files = None\<rparr>
       (replies w (sent w))"

definition polled :: "client \<Rightarrow> string \<Rightarrow> world \<Rightarrow> world" where
  "polled c file_id w =
     w\<lparr>clock := clock w + lag w (length (events w)), sent := Suc (sent w),
       events := events w @ [poll_event c file_id w]\<rparr>"

definition after_sleep :: "real \<Rightarrow> world \<Rightarrow> world" where
  "after_sleep d w =
     w\<lparr>clock := clock w + d + lag w (length (events w)), events := events w @ [Slept d]\<rparr>"

definition polls :: "event list \<Rightarrow> event list" where
  "polls evs = filter is_exchange evs"

text \<open>
  The runs of the wait loop as a relation between the world at a test of the loop
  condition, the outcome and the final world: one rule for each way a round can go.
\<close>

inductive wait_run ::
  "client \<Rightarrow> string \<Rightarrow> int \<Rightarrow> int \<Rightarrow> real \<Rightarrow> world \<Rightarrow> error + json \<Rightarrow> world \<Rightarrow> bool"
  for c :: client and file_id :: string and check_interval :: int and max_wait :: int
    and start :: real
  where
  out_of_time:
    "\<not> clock w - start < real_of_int max_wait \<Longrightarrow>
     wait_run c file_id check_interval max_wait start w (Inl (timeout_error max_wait)) w"
| no_file_id:
    "clock w - start < real_of_int max_wait \<Longrightarrow> file_id = [] \<Longrightarrow>
     wait_run c file_id check_interval max_wait start w
       (Inl (EmailListVerifyError ''File ID is required'')) w"
| poll_error:
    "clock w - start < real_of_int max_wait \<Longrightarrow> file_id \<noteq> [] \<Longrightarrow>
     response_result (replies w (sent w)) = Inl e \<Longrightarrow>
     wait_run c file_id check_interval max_wait start w (Inl e) (polled c file_id w)"
| poll_not_dict:
    "clock w - start < real_of_int max_wait \<Longrightarrow> file_id \<noteq> [] \<Longrightarrow>
     response_result (replies w (sent w)) = Inr j \<Longrightarrow> \<forall>kvs. j \<noteq> JObj kvs \<Longrightarrow>
     wait_run c file_id check_interval max_wait start w (Inl AttributeError) (polled c file_id w)"
| poll_completed:
    "clock w - start < real_of_int max_wait \<Longrightarrow> file_id \<noteq> [] \<Longrightarrow>
     response_result (replies w (sent w)) = Inr (JObj kvs) \<Longrightarrow>
     map_of kvs ''status'' = Some (JStr ''completed'') \<Longrightarrow>
     wait_run c file_id check_interval max_wait start w (Inr (JObj kvs)) (polled c file_id w)"
| poll_failed:
    "clock w - start < real_of_int max_wait \<Longrightarrow> file_id \<noteq> [] \<Longrightarrow>
     response_result (replies w (sent w)) = Inr (JObj kvs) \<Longrightarrow>
     map_of kvs ''status'' = Some (JStr ''failed'') \<Longrightarrow>
     wait_run c file_id check_interval max_wait start w
       (Inl (failed_error (polled c file_id w) kvs)) (polled c file_id w)"
| poll_bad_interval:
    "clock w - start < real_of_int max_wait \<Longrightarrow> file_id \<noteq> [] \<Longrightarrow>
     response_result (replies w (sent w)) = Inr (JObj kvs) \<Longrightarrow>
     map_of kvs ''status'' \<noteq> Some (JStr ''completed'') \<Longrightarrow>
     map_of kvs ''status'' \<noteq> Some (JStr ''failed'') \<Longrightarrow> check_interval < 0 \<Longrightarrow>
     wait_run c file_id check_interval max_wait start w (Inl ValueError) (polled c file_id w)"
| poll_again:
    "clock w - start < real_of_int max_wait \<Longrightarrow> file_id \<noteq> [] \<Longrightarrow>
     response_result (replies w (sent w)) = Inr (JObj kvs) \<Longrightarrow>
     map_of kvs ''status'' \<noteq> Some (JStr ''completed'') \<Longrightarrow>
     map_of kvs ''status'' \<noteq> Some (JStr ''failed'') \<Longrightarrow> 0 \<le> check_interval \<Longrightarrow>
     wait_run c file_id check_interval max_wait start
       (after_sleep (real_of_int check_interval) (polled c file_id w)) r w' \<Longrightarrow>
     wait_run c file_id check_interval max_wait start w r w'"

subsection \<open>Sample worlds\<close>

definition json_reply :: "json \<Rightarrow> http_reply" where
  "json_reply j =
     Http_Response \<lparr>status_code = 200, body_text = [], json_body = Some j, status_error = []\<rparr>"

definition text_reply :: "string \<Rightarrow> http_reply" where
  "text_reply s =
     Http_Response \<lparr>status_code = 200, body_text = s, json_body = None, status_error = []\<rparr>"

definition status_reply :: "nat \<Rightarrow> http_reply" where
  "status_reply code =
     Http_Response \<lparr>status_code = code, body_text = [], json_body = None,
                    status_error = ''status '' @ show_nat code\<rparr>"

definition sample_client :: client where
  "sample_client = \<lparr>api_key = ''k3y'', base_url = ''https://h/api'', timeout_s = 30\<rparr>"

text \<open>
  A world at time 0 whose service answers the \<open>n\<close>-th request with \<open>rs ! n\<close> (and with a
  connection error once the list is used up), where every request takes one second and
  sleeps do not overshoot, and where \<open>emails.csv\<close> is the only file.
\<close>

definition sample_world :: "http_reply list \<Rightarrow> world" where
  "sample_world rs =
     \<lparr>clock = 0, sent = 0,
      replies = (\<lambda>n. if n < length rs then rs ! n else Http_Error ''connection refused''),
      lag = (\<lambda>n. if even n then 1 else 0), events = [],
      fs = (\<lambda>p. if p = ''emails.csv'' then Some (Regular ''a@x.com'') else None),
      render = (\<lambda>j. ''<value>''), strftime = (\<lambda>t. ''20240101_000000''),
      isoformat = (\<lambda>t. ''2024-01-01T00:00:00'')\<rparr>"

definition status_record :: "string \<Rightarrow> json" where
  "status_record s = JObj [(''status'', JStr s)]"

text \<open>A job that is still being processed at the first poll and completed at the second.\<close>

definition completing_world :: world where
  "completing_world =
     sample_world [json_reply (status_record ''processing''), json_reply (status_record ''completed'')]"

text \<open>A job that never leaves \<open>processing\<close>.\<close>

definition stalled_world :: world where
  "stalled_world =
     (sample_world []) \<lparr>replies := (\<lambda>n. json_reply (status_record ''processing''))\<rparr>"

text \<open>A job whose second status poll is answered 401.\<close>

definition expiring_world :: world where
  "expiring_world = sample_world [json_reply (status_record ''processing''), status_reply 401]"

text \<open>A job that is still being processed at the first poll and failed at the second.\<close>

definition failing_world :: world where
  "failing_world =
     sample_world [json_reply (status_record ''processing''), json_reply (status_record ''failed'')]"

subsection \<open>Reading the log of a call\<close>

text \<open>The \<open>email\<close> query parameter of a request in the log.\<close>

fun email_param :: "event \<Rightarrow> string option" where
  "email_param (Exchange t rq rp) = map_of (query rq) ''email''"
| "email_param (Slept d) = None"

text \<open>An exchange whose reply has HTTP status 401.\<close>

fun answered_401 :: "event \<Rightarrow> bool" where
  "answered_401 (Exchange t rq (Http_Response r)) = (status_code r = 401)"
| "answered_401 e = False"

text \<open>
  The shape of the log of a wait: rounds of a poll with a non-terminal status followed by
  a sleep of the given length, and then nothing more or one last poll.
\<close>

fun round_log :: "real \<Rightarrow> event list \<Rightarrow> bool" where
  "round_log d [] = True"
| "round_log d [e] = is_exchange e"
| "round_log d (e # s # rest) =
     (is_exchange e \<and> observes_pending e \<and> s = Slept d \<and> round_log d rest)"

section \<open>Verification\<close>

text \<open>
  C10: with \<open>max_wait \<le> 0\<close> the wait fails with the timeout error at once, whatever the
  fuel: the world is returned unchanged, so no status call is made and nothing sleeps.
\<close>

theorem wait_nonpositive_bound_times_out:
  "max_wait \<le> 0 \<Longrightarrow>
   wait_for_bulk_completion fuel c file_id check_interval max_wait w
     = Some (Inl (timeout_error max_wait), w)"
  by (cases fuel) (simp_all add: wait_for_bulk_completion_def)

theorem wait_nonpositive_bound_witness:
  "(0::int) \<le> 0 \<and>
   wait_for_bulk_completion 5 sample_client ''f1'' 10 0 (sample_world [])
     = Some (Inl (EmailListVerifyError ''Timeout waiting for bulk verification (waited 0s)''),
             sample_world [])"
  using wait_nonpositive_bound_times_out [of 0 5 sample_client "''f1''" 10 "sample_world []"]
  by (simp add: timeout_error_def show_int_def show_nat.simps digit_char_def)

subsection \<open>The transport\<close>

lemma http_request_effect:
  "http_request rq w =
     (replies w (sent w),
      w\<lparr>clock := clock w + lag w (length (events w)), sent := Suc (sent w),
        events := events w @ [Exchange (clock w) rq (replies w (sent w))]\<rparr>)"
  by (simp add: http_request_def)

lemma make_request_effect:
  "make_request c endpoint meth ps dat fls w =
     (response_result (replies w (sent w)),
      w\<lparr>clock := clock w + lag w (length (events w)), sent := Suc (sent w),
        events := events w @ [Exchange (clock w)
           \<lparr>url = url_of c endpoint, http_method = meth,
            query = AList.update ''secret'' (api_key c) (case ps of None \<Rightarrow> [] | Some p \<Rightarrow> p),
            form = dat, files = fls\<rparr> (replies w (sent w))]\<rparr>)"
  by (simp add: make_request_def http_request_def)

lemma rq_make_request_effect:
  "rq_make_request c endpoint meth ps dat fls w =
     (rq_response_result (replies w (sent w)),
      w\<lparr>clock := clock w + lag w (length (events w)), sent := Suc (sent w),
        events := events w @ [Exchange (clock w)
           \<lparr>url = rq_base_url @ ''/'' @ endpoint, http_method = meth,
            query = AList.update ''secret'' (api_key c) (case ps of None \<Rightarrow> [] | Some p \<Rightarrow> p),
            form = dat, files = fls\<rparr> (replies w (sent w))]\<rparr>)"
  by (simp add: rq_make_request_def http_request_def)

text \<open>
  C3: whatever parameters the caller passes (a \<open>secret\<close> of its own included),
  \<open>_make_request\<close> sends exactly one request, and its query holds \<open>secret\<close> with the
  configured API key. This holds for the transport of both modules that have one.
\<close>

theorem request_carries_secret:
  "(\<exists>rq. events (snd (make_request c endpoint meth ps dat fls w))
            = events w @ [Exchange (clock w) rq (replies w (sent w))]
        \<and> map_of (query rq) ''secret'' = Some (api_key c))
   \<and> (\<exists>rq. events (snd (rq_make_request c endpoint meth ps dat fls w))
            = events w @ [Exchange (clock w) rq (replies w (sent w))]
        \<and> map_of (query rq) ''secret'' = Some (api_key c))"
  by (simp add: make_request_effect rq_make_request_effect update_conv')

subsection \<open>Upload\<close>

text \<open>
  C5: for a path that does not exist, \<open>bulk_upload\<close> fails with the file-not-found error
  and returns the world as it was: no request is sent, in either module.
\<close>

theorem upload_missing_file:
  "fs w file_path = None \<Longrightarrow>
   bulk_upload c file_path filename w
     = (Inl (EmailListVerifyError (''File not found: '' @ file_path)), w)
   \<and> rq_bulk_upload c file_path filename w
     = (Inl (EmailListVerifyError (''File not found: '' @ file_path)), w)"
  by (simp add: bulk_upload_def rq_bulk_upload_def)

theorem upload_missing_file_witness:
  "fs (sample_world []) ''nope.csv'' = None \<and>
   bulk_upload sample_client ''nope.csv'' None (sample_world [])
     = (Inl (EmailListVerifyError ''File not found: nope.csv''), sample_world [])"
  using upload_missing_file [of "sample_world []" "''nope.csv''" sample_client None]
  by (simp add: sample_world_def)

subsection \<open>The file id of an upload\<close>

lemma dropWhile_rev_dropWhile:
  "dropWhile P (rev (dropWhile P (rev (dropWhile P xs)))) = rev (dropWhile P (rev (dropWhile P xs)))"
proof (cases "dropWhile P xs")
  case Nil
  show ?thesis unfolding Nil by simp
next
  case (Cons y ys)
  then have ny: "\<not> P y"
    by (metis hd_dropWhile list.distinct(1) list.sel(1))
  have "dropWhile P (rev (y # ys)) = dropWhile P (rev ys) @ [y]"
    using ny by (simp add: dropWhile_append)
  then have "rev (dropWhile P (rev (y # ys))) = y # rev (dropWhile P (rev ys))"
    by simp
  then show ?thesis unfolding Cons using ny by simp
qed

lemma strip_idem: "strip (strip s) = strip s"
  by (simp add: strip_def dropWhile_rev_dropWhile dropWhile_idem)


text \<open>
  A reply whose body is the JSON string \<open>" f1 "\<close>: the client returns it with its blanks.
\<close>

theorem upload_json_string_counterexample:
  "fst (bulk_upload sample_client ''emails.csv'' None (sample_world [json_reply (JStr '' f1 '')]))
     = Inr (JStr '' f1 '')
   \<and> strip '' f1 '' = ''f1''"
  by (simp add: Let_def bulk_upload_def make_request_effect sample_world_def json_reply_def
      response_result_def is_success_def strip_def is_space_def)

text \<open>
  C6 (amended): for a readable file, a transport result that is a string is returned by
  the client as the transport delivered it (a raw-text body arrives trimmed, and trimming
  it again changes nothing), and by the requests-based module trimmed; a dictionary with
  a \<open>file_id\<close> gives that field's value; anything else fails with the upload error.
  Trimming is \<open>str.strip()\<close> on text whose code points are below 256: it removes 0x09 to
  0x0D, 0x1C to 0x20, 0x85 and 0xA0 from both ends.
\<close>

theorem upload_file_id:
  assumes "fs w file_path = Some (Regular content)"
  shows "(response_result (replies w (sent w)) = Inr (JStr s) \<longrightarrow>
            fst (bulk_upload c file_path filename w) = Inr (JStr s))
     \<and> (replies w (sent w) = Http_Response r \<and> status_code r \<noteq> 401
           \<and> is_success (status_code r) \<and> json_body r = None \<longrightarrow>
            fst (bulk_upload c file_path filename w) = Inr (JStr (strip (body_text r)))
            \<and> strip (strip (body_text r)) = strip (body_text r))
     \<and> (rq_response_result (replies w (sent w)) = Inr (JStr s) \<longrightarrow>
            fst (rq_bulk_upload c file_path filename w) = Inr (JStr (strip s)))
     \<and> (response_result (replies w (sent w)) = Inr (JObj kvs) \<and> map_of kvs ''file_id'' = Some v \<longrightarrow>
            fst (bulk_upload c file_path filename w) = Inr v)
     \<and> (rq_response_result (replies w (sent w)) = Inr (JObj kvs) \<and> map_of kvs ''file_id'' = Some v \<longrightarrow>
            fst (rq_bulk_upload c file_path filename w) = Inr v)
     \<and> (response_result (replies w (sent w)) = Inr j \<and> (\<forall>t. j \<noteq> JStr t)
           \<and> (\<forall>kvs. j = JObj kvs \<longrightarrow> map_of kvs ''file_id'' = None) \<longrightarrow>
            fst (bulk_upload c file_path filename w)
              = Inl (EmailListVerifyError ''Failed to get file ID from response''))
     \<and> (rq_response_result (replies w (sent w)) = Inr j \<and> (\<forall>t. j \<noteq> JStr t)
           \<and> (\<forall>kvs. j = JObj kvs \<longrightarrow> map_of kvs ''file_id'' = None) \<longrightarrow>
            fst (rq_bulk_upload c file_path filename w)
              = Inl (EmailListVerifyError ''Failed to get file ID from response''))"
proof -
  have a: "fst (bulk_upload c file_path filename w) = Inr (JStr s)"
    if "response_result (replies w (sent w)) = Inr (JStr s)"
    using assms that by (simp add: Let_def bulk_upload_def make_request_effect)
  have b: "fst (bulk_upload c file_path filename w) = Inr (JStr (strip (body_text r)))"
    if "replies w (sent w) = Http_Response r" "status_code r \<noteq> 401"
       "is_success (status_code r)" "json_body r = None"
    using assms that
    by (simp add: Let_def bulk_upload_def make_request_effect response_result_def)
  have c: "fst (rq_bulk_upload c file_path filename w) = Inr (JStr (strip s))"
    if "rq_response_result (replies w (sent w)) = Inr (JStr s)"
    using assms that by (simp add: Let_def rq_bulk_upload_def rq_make_request_effect)
  have d: "fst (bulk_upload c file_path filename w) = Inr v"
    if "response_result (replies w (sent w)) = Inr (JObj kvs)" "map_of kvs ''file_id'' = Some v"
    using assms that by (simp add: Let_def bulk_upload_def make_request_effect)
  have e: "fst (rq_bulk_upload c file_path filename w) = Inr v"
    if "rq_response_result (replies w (sent w)) = Inr (JObj kvs)" "map_of kvs ''file_id'' = Some v"
    using assms that by (simp add: Let_def rq_bulk_upload_def rq_make_request_effect)
  have f: "fst (bulk_upload c file_path filename w)
              = Inl (EmailListVerifyError ''Failed to get file ID from response'')"
    if "response_result (replies w (sent w)) = Inr j" "\<forall>t. j \<noteq> JStr t"
       "\<forall>kvs. j = JObj kvs \<longrightarrow> map_of kvs ''file_id'' = None"
    using assms that by (cases j) (simp_all add: Let_def bulk_upload_def make_request_effect)
  have g: "fst (rq_bulk_upload c file_path filename w)
              = Inl (EmailListVerifyError ''Failed to get file ID from response'')"
    if "rq_response_result (replies w (sent w)) = Inr j" "\<forall>t. j \<noteq> JStr t"
       "\<forall>kvs. j = JObj kvs \<longrightarrow> map_of kvs ''file_id'' = None"
    using assms that by (cases j) (simp_all add: Let_def rq_bulk_upload_def rq_make_request_effect)
  show ?thesis
    by (intro conjI impI; (elim conjE)?) (rule a b c d e f g strip_idem; assumption)+
qed



theorem upload_file_id_witness:
  "fs (sample_world [text_reply [CHR 0xA0, CHR '' '', CHR ''f'', CHR ''7'', CHR '' '', CHR 0x85]]) ''emails.csv''
     = Some (Regular ''a@x.com'')
   \<and> fst (bulk_upload sample_client ''emails.csv'' None
            (sample_world [text_reply [CHR 0xA0, CHR '' '', CHR ''f'', CHR ''7'', CHR '' '', CHR 0x85]]))
       = Inr (JStr ''f7'')
   \<and> fst (rq_bulk_upload sample_client ''emails.csv'' None
            (sample_world [text_reply [CHR 0xA0, CHR '' '', CHR ''f'', CHR ''7'', CHR '' '', CHR 0x85]]))
       = Inr (JStr ''f7'')"
proof -
  let ?b = "[CHR 0xA0, CHR '' '', CHR ''f'', CHR ''7'', CHR '' '', CHR 0x85]"
  let ?r = "\<lparr>status_code = 200, body_text = ?b, json_body = None, status_error = []\<rparr>"
  let ?w = "sample_world [text_reply ?b]"
  have f: "fs ?w ''emails.csv'' = Some (Regular ''a@x.com'')"
    by (simp add: sample_world_def)
  have s: "strip ?b = ''f7''"
    by (simp add: strip_def is_space_def)
  have r: "replies ?w (sent ?w) = Http_Response ?r"
    by (simp add: sample_world_def text_reply_def)
  have q: "rq_response_result (replies ?w (sent ?w)) = Inr (JStr ?b)"
    by (simp add: r rq_response_result_def rq_raises_for_status_def)
  have ok: "status_code ?r \<noteq> 401 \<and> is_success (status_code ?r) \<and> json_body ?r = None"
    by (simp add: is_success_def)
  from upload_file_id [OF f, of ?b sample_client None ?r]
  have "fst (bulk_upload sample_client ''emails.csv'' None ?w) = Inr (JStr (strip (body_text ?r)))"
    and "fst (rq_bulk_upload sample_client ''emails.csv'' None ?w) = Inr (JStr (strip ?b))"
    using r q ok by blast+
  then show ?thesis
    using f s by simp
qed

subsection \<open>Download\<close>

text \<open>
  With an empty file id and result type \<open>all\<close> the download fails on the file-id guard and
  sends nothing.
\<close>

theorem download_empty_id_counterexample:
  "download_bulk_result sample_client [] ''all'' (sample_world [text_reply ''csv''])
     = (Inl (EmailListVerifyError ''File ID is required''), sample_world [text_reply ''csv''])
   \<and> new_events (sample_world [text_reply ''csv''])
        (snd (download_bulk_result sample_client [] ''all'' (sample_world [text_reply ''csv'']))) = []"
  by (simp add: download_bulk_result_def new_events_def)

text \<open>
  C7 (amended): an empty file id fails with \<open>File ID is required\<close> and sends nothing,
  whatever the result type. For a non-empty file id, a result type other than \<open>all\<close> and
  \<open>clean\<close> fails with the result-type error and sends nothing; \<open>all\<close> sends exactly one
  request, to \<open>downloadApiFile\<close>, and \<open>clean\<close> exactly one, to \<open>downloadCleanFile\<close>.
\<close>

theorem download_result_type:
  "(file_id = [] \<longrightarrow>
      download_bulk_result c file_id result_type w
        = (Inl (EmailListVerifyError ''File ID is required''), w))
   \<and> (file_id \<noteq> [] \<and> result_type \<noteq> ''all'' \<and> result_type \<noteq> ''clean'' \<longrightarrow>
      download_bulk_result c file_id result_type w
        = (Inl (EmailListVerifyError (''result_type must be 'all' or 'clean'' @ [CHR 0x27])), w))
   \<and> (file_id \<noteq> [] \<and> result_type = ''all'' \<longrightarrow>
      (\<exists>rq. new_events w (snd (download_bulk_result c file_id result_type w))
               = [Exchange (clock w) rq (replies w (sent w))]
           \<and> url rq = url_of c ''downloadApiFile''))
   \<and> (file_id \<noteq> [] \<and> result_type = ''clean'' \<longrightarrow>
      (\<exists>rq. new_events w (snd (download_bulk_result c file_id result_type w))
               = [Exchange (clock w) rq (replies w (sent w))]
           \<and> url rq = url_of c ''downloadCleanFile''))"
  by (simp add: download_bulk_result_def make_request_effect new_events_def)

theorem download_result_type_witness:
  "download_bulk_result sample_client [] ''clean'' (sample_world [])
     = (Inl (EmailListVerifyError ''File ID is required''), sample_world [])
   \<and> download_bulk_result sample_client ''f1'' ''bogus'' (sample_world [])
     = (Inl (EmailListVerifyError (''result_type must be 'all' or 'clean'' @ [CHR 0x27])), sample_world [])
   \<and> (\<exists>rq. new_events (sample_world []) (snd (download_bulk_result sample_client ''f1'' ''all'' (sample_world [])))
               = [Exchange 0 rq (Http_Error ''connection refused'')]
           \<and> url rq = ''https://h/api/downloadApiFile'')
   \<and> (\<exists>rq. new_events (sample_world []) (snd (download_bulk_result sample_client ''f1'' ''clean'' (sample_world [])))
               = [Exchange 0 rq (Http_Error ''connection refused'')]
           \<and> url rq = ''https://h/api/downloadCleanFile'')"
  using download_result_type [of "[]" sample_client "''clean''" "sample_world []"]
    download_result_type [of "''f1''" sample_client "''bogus''" "sample_world []"]
    download_result_type [of "''f1''" sample_client "''all''" "sample_world []"]
    download_result_type [of "''f1''" sample_client "''clean''" "sample_world []"]
  by (simp add: sample_world_def sample_client_def url_of_def lstrip_chars_def)

subsection \<open>\<open>extract_domain\<close>\<close>

lemma split_on_first:
  "split_on c s =
     takeWhile (\<lambda>x. x \<noteq> c) s #
       (if c \<in> set s then split_on c (tl (dropWhile (\<lambda>x. x \<noteq> c) s)) else [])"
  by (induction s) (auto split: list.splits)

lemma dropWhile_single: "count_list s c = 1 \<Longrightarrow> c \<notin> set (tl (dropWhile (\<lambda>x. x \<noteq> c) s))"
  by (induction s) (auto split: if_splits simp: count_list_0_iff)

text \<open>
  On \<open>a@b@c\<close> the result is \<open>b\<close>, while the text after the first \<open>@\<close> is \<open>b@c\<close>.
\<close>

theorem extract_domain_counterexample:
  "extract_domain ''a@b@c'' = Inr (Some ''b'')
   \<and> lower (tl (dropWhile (\<lambda>x. x \<noteq> CHR ''@'') ''a@b@c'')) = ''b@c''"
  by (simp add: extract_domain_def lower_def lower_char_def latin1_capitals_def latin1_smalls_def)

lemma extract_domain_at:
  "CHR ''@'' \<in> set email \<Longrightarrow>
   extract_domain email
     = Inr (Some (lower (takeWhile (\<lambda>x. x \<noteq> CHR ''@'')
                           (tl (dropWhile (\<lambda>x. x \<noteq> CHR ''@'') email)))))"
  by (simp add: extract_domain_def split_on_first [of _ email]
      split_on_first [of _ "tl (dropWhile (\<lambda>x. x \<noteq> CHR ''@'') email)"])

lemma extract_domain_single:
  assumes "count_list email CHR ''@'' = 1"
  shows "extract_domain email = Inr (Some (lower (tl (dropWhile (\<lambda>x. x \<noteq> CHR ''@'') email))))"
proof -
  from assms have mem: "CHR ''@'' \<in> set email"
    by (metis count_list_0_iff zero_neq_one)
  have "CHR ''@'' \<notin> set (tl (dropWhile (\<lambda>x. x \<noteq> CHR ''@'') email))"
    using assms by (rule dropWhile_single)
  then have "\<forall>x\<in>set (tl (dropWhile (\<lambda>x. x \<noteq> CHR ''@'') email)). x \<noteq> CHR ''@''"
    by blast
  then have t: "takeWhile (\<lambda>x. x \<noteq> CHR ''@'') (tl (dropWhile (\<lambda>x. x \<noteq> CHR ''@'') email))
               = tl (dropWhile (\<lambda>x. x \<noteq> CHR ''@'') email)"
    by (simp only: takeWhile_eq_all_conv)
  show ?thesis
    by (simp only: extract_domain_at [OF mem] t)
qed

text \<open>
  C9 (amended): for a string that contains \<open>@\<close>, \<open>extract_domain\<close> returns, in lower
  case, the text between the first \<open>@\<close> and the next one (or the end of the string); when
  the string has exactly one \<open>@\<close> this is all the text after it. Without \<open>@\<close> the result
  is \<open>None\<close>. The two examples of the specification hold. Lower case is \<open>str.lower()\<close>
  on text whose code points are below 256: A to Z and 0xC0 to 0xDE, without 0xD7, move up
  by 0x20.
\<close>

theorem extract_domain_segment:
  "(CHR ''@'' \<in> set email \<longrightarrow>
      extract_domain email
        = Inr (Some (lower (takeWhile (\<lambda>x. x \<noteq> CHR ''@'')
                              (tl (dropWhile (\<lambda>x. x \<noteq> CHR ''@'') email))))))
   \<and> (count_list email CHR ''@'' = 1 \<longrightarrow>
      extract_domain email = Inr (Some (lower (tl (dropWhile (\<lambda>x. x \<noteq> CHR ''@'') email)))))
   \<and> (CHR ''@'' \<notin> set email \<longrightarrow> extract_domain email = Inr None)
   \<and> extract_domain ''a@B.COM'' = Inr (Some ''b.com'')
   \<and> extract_domain ''noAt'' = Inr None"
proof (intro conjI impI)
  show "extract_domain ''a@B.COM'' = Inr (Some ''b.com'')"
    by (simp add: extract_domain_def lower_def lower_char_def latin1_capitals_def latin1_smalls_def)
  show "extract_domain ''noAt'' = Inr None"
    by (simp add: extract_domain_def)
  show "extract_domain email = Inr None" if "CHR ''@'' \<notin> set email"
    using that by (simp add: extract_domain_def)
qed (rule extract_domain_at, assumption, rule extract_domain_single, assumption)

theorem extract_domain_segment_witness:
  "extract_domain ''x@Y.org@z'' = Inr (Some ''y.org'')
   \<and> extract_domain ''x@Y.org'' = Inr (Some ''y.org'')
   \<and> extract_domain (''x@'' @ [CHR 0xC9, CHR 0xD7] @ ''.ORG'') = Inr (Some ([CHR 0xE9, CHR 0xD7] @ ''.org''))
   \<and> extract_domain ''xyz'' = Inr None"
  using extract_domain_segment [of "''x@Y.org@z''"] extract_domain_segment [of "''x@Y.org''"]
    extract_domain_segment [of "''x@'' @ [CHR 0xC9, CHR 0xD7] @ ''.ORG''"]
    extract_domain_segment [of "''xyz''"]
  by (simp add: lower_def lower_char_def latin1_capitals_def latin1_smalls_def)

subsection \<open>The wait loop, one round at a time\<close>

lemma get_bulk_status_empty:
  "get_bulk_status c [] w = (Inl (EmailListVerifyError ''File ID is required''), w)"
  by (simp add: get_bulk_status_def)

lemma get_bulk_status_poll:
  "file_id \<noteq> [] \<Longrightarrow>
   get_bulk_status c file_id w = (response_result (replies w (sent w)), polled c file_id w)"
  by (simp add: get_bulk_status_def make_request_effect polled_def poll_event_def)

lemma time_sleep_effect:
  "time_sleep d w = (if d < 0 then (Inl ValueError, w) else (Inr (), after_sleep d w))"
  by (simp add: time_sleep_def after_sleep_def)

lemma wait_loop_timeout:
  "\<not> clock w - start < real_of_int max_wait \<Longrightarrow>
   wait_loop fuel c file_id check_interval max_wait start w = Some (Inl (timeout_error max_wait), w)"
  by (cases fuel) simp_all

lemma wait_loop_empty_id:
  "clock w - start < real_of_int max_wait \<Longrightarrow>
   wait_loop (Suc fuel) c [] check_interval max_wait start w
     = Some (Inl (EmailListVerifyError ''File ID is required''), w)"
  by (simp add: get_bulk_status_empty)

lemma wait_loop_error:
  "clock w - start < real_of_int max_wait \<Longrightarrow> file_id \<noteq> [] \<Longrightarrow>
   response_result (replies w (sent w)) = Inl e \<Longrightarrow>
   wait_loop (Suc fuel) c file_id check_interval max_wait start w
     = Some (Inl e, polled c file_id w)"
  by (simp add: get_bulk_status_poll)

lemma wait_loop_not_dict:
  "clock w - start < real_of_int max_wait \<Longrightarrow> file_id \<noteq> [] \<Longrightarrow>
   response_result (replies w (sent w)) = Inr j \<Longrightarrow> \<forall>kvs. j \<noteq> JObj kvs \<Longrightarrow>
   wait_loop (Suc fuel) c file_id check_interval max_wait start w
     = Some (Inl AttributeError, polled c file_id w)"
  by (cases j) (simp_all add: get_bulk_status_poll)

lemma wait_loop_completed:
  "clock w - start < real_of_int max_wait \<Longrightarrow> file_id \<noteq> [] \<Longrightarrow>
   response_result (replies w (sent w)) = Inr (JObj kvs) \<Longrightarrow>
   map_of kvs ''status'' = Some (JStr ''completed'') \<Longrightarrow>
   wait_loop (Suc fuel) c file_id check_interval max_wait start w
     = Some (Inr (JObj kvs), polled c file_id w)"
  by (simp add: get_bulk_status_poll)

lemma wait_loop_failed:
  "clock w - start < real_of_int max_wait \<Longrightarrow> file_id \<noteq> [] \<Longrightarrow>
   response_result (replies w (sent w)) = Inr (JObj kvs) \<Longrightarrow>
   map_of kvs ''status'' = Some (JStr ''failed'') \<Longrightarrow>
   wait_loop (Suc fuel) c file_id check_interval max_wait start w
     = Some (Inl (failed_error (polled c file_id w) kvs), polled c file_id w)"
  by (simp add: get_bulk_status_poll)

lemma wait_loop_pending:
  "clock w - start < real_of_int max_wait \<Longrightarrow> file_id \<noteq> [] \<Longrightarrow>
   response_result (replies w (sent w)) = Inr (JObj kvs) \<Longrightarrow>
   map_of kvs ''status'' \<noteq> Some (JStr ''completed'') \<Longrightarrow>
   map_of kvs ''status'' \<noteq> Some (JStr ''failed'') \<Longrightarrow>
   wait_loop (Suc fuel) c file_id check_interval max_wait start w
     = (if check_interval < 0 then Some (Inl ValueError, polled c file_id w)
        else wait_loop fuel c file_id check_interval max_wait start
               (after_sleep (real_of_int check_interval) (polled c file_id w)))"
  by (simp add: get_bulk_status_poll time_sleep_effect)

lemma result_cases:
  obtains (err) e where "response_result rp = Inl e"
  | (other) j where "response_result rp = Inr j" "\<forall>kvs. j \<noteq> JObj kvs"
  | (completed) kvs where "response_result rp = Inr (JObj kvs)"
      "map_of kvs ''status'' = Some (JStr ''completed'')"
  | (failed) kvs where "response_result rp = Inr (JObj kvs)"
      "map_of kvs ''status'' = Some (JStr ''failed'')"
  | (pending) kvs where "response_result rp = Inr (JObj kvs)"
      "map_of kvs ''status'' \<noteq> Some (JStr ''completed'')"
      "map_of kvs ''status'' \<noteq> Some (JStr ''failed'')"
proof (cases "response_result rp")
  case (Inl e)
  then show ?thesis by (rule err)
next
  case (Inr j)
  show ?thesis
  proof (cases "\<exists>kvs. j = JObj kvs")
    case False
    with Inr show ?thesis by (intro other [of j]) auto
  next
    case True
    then obtain kvs where j: "j = JObj kvs" by blast
    with Inr completed [of kvs] failed [of kvs] pending [of kvs] show ?thesis
      by blast
  qed
qed

lemma wait_loop_run:
  "wait_loop fuel c file_id check_interval max_wait start w = Some (r, w') \<Longrightarrow>
   wait_run c file_id check_interval max_wait start w r w'"
proof (induction fuel arbitrary: w)
  case 0
  then show ?case
    by (auto split: if_splits intro: wait_run.out_of_time)
next
  case (Suc fuel)
  show ?case
  proof (cases "clock w - start < real_of_int max_wait")
    case False
    with Suc.prems have "r = Inl (timeout_error max_wait)" and "w' = w"
      by (simp_all del: wait_loop.simps add: wait_loop_timeout)
    with False show ?thesis
      by (simp add: wait_run.out_of_time)
  next
    case within: True
    show ?thesis
    proof (cases "file_id = []")
      case True
      from wait_loop_empty_id [OF within] Suc.prems
      have "r = Inl (EmailListVerifyError ''File ID is required'')" and "w' = w"
        unfolding True by (simp_all del: wait_loop.simps)
      with within True show ?thesis
        by (simp add: wait_run.no_file_id)
    next
      case nonempty: False
      show ?thesis
      proof (cases rule: result_cases [of "replies w (sent w)"])
        case (err e)
        from Suc.prems have "r = Inl e" and "w' = polled c file_id w"
          by (simp_all del: wait_loop.simps add: wait_loop_error [OF within nonempty err])
        with within nonempty err show ?thesis
          by (simp add: wait_run.poll_error)
      next
        case (other j)
        from Suc.prems have "r = Inl AttributeError" and "w' = polled c file_id w"
          by (simp_all del: wait_loop.simps add: wait_loop_not_dict [OF within nonempty other])
        with within nonempty other show ?thesis
          by (simp add: wait_run.poll_not_dict)
      next
        case (completed kvs)
        from Suc.prems have "r = Inr (JObj kvs)" and "w' = polled c file_id w"
          by (simp_all del: wait_loop.simps add: wait_loop_completed [OF within nonempty completed])
        with within nonempty completed show ?thesis
          by (simp add: wait_run.poll_completed)
      next
        case (failed kvs)
        from Suc.prems
        have "r = Inl (failed_error (polled c file_id w) kvs)" and "w' = polled c file_id w"
          by (auto simp del: wait_loop.simps simp add: wait_loop_failed [OF within nonempty failed])
        with within nonempty failed show ?thesis
          by (simp add: wait_run.poll_failed)
      next
        case (pending kvs)
        note step = wait_loop_pending [OF within nonempty pending, of fuel c check_interval]
        show ?thesis
        proof (cases "check_interval < 0")
          case True
          with Suc.prems have "r = Inl ValueError" and "w' = polled c file_id w"
            by (simp_all del: wait_loop.simps add: step)
          with within nonempty pending True show ?thesis
            by (simp add: wait_run.poll_bad_interval)
        next
          case False
          with Suc.prems
          have "wait_loop fuel c file_id check_interval max_wait start
                  (after_sleep (real_of_int check_interval) (polled c file_id w)) = Some (r, w')"
            by (simp del: wait_loop.simps add: step)
          then have run: "wait_run c file_id check_interval max_wait start
                  (after_sleep (real_of_int check_interval) (polled c file_id w)) r w'"
            by (rule Suc.IH)
          from False have "0 \<le> check_interval"
            by simp
          with within nonempty pending show ?thesis
            using run by (rule wait_run.poll_again)
        qed
      qed
    qed
  qed
qed

subsection \<open>What a run of the wait loop leaves in the log\<close>

lemma new_events_same [simp]: "new_events w w = []"
  by (simp add: new_events_def)

lemma new_events_polled [simp]: "new_events w (polled c file_id w) = [poll_event c file_id w]"
  by (simp add: new_events_def polled_def)

lemma poll_event_simps [simp]:
  "is_exchange (poll_event c file_id w)"
  "issued (poll_event c file_id w) = clock w"
  "observed (poll_event c file_id w)
     = (case response_result (replies w (sent w)) of Inr (JObj kvs) \<Rightarrow> Some (JObj kvs) | _ \<Rightarrow> None)"
  by (simp_all add: poll_event_def)

lemma wait_run_extends:
  "wait_run c file_id check_interval max_wait start w r w' \<Longrightarrow>
   \<exists>evs. events w' = events w @ evs"
proof (induction rule: wait_run.induct)
  case (poll_again w kvs r w')
  then obtain evs where "events w'
      = events (after_sleep (real_of_int check_interval) (polled c file_id w)) @ evs"
    by blast
  then show ?case
    by (simp add: after_sleep_def polled_def)
qed (simp_all add: polled_def)

lemma wait_run_events:
  assumes "wait_run c file_id check_interval max_wait start w r w'"
  shows "events w' = events w @ new_events w w'"
proof -
  from wait_run_extends [OF assms] obtain evs where "events w' = events w @ evs"
    by blast
  then show ?thesis
    by (simp add: new_events_def)
qed

lemma new_events_again:
  assumes "wait_run c file_id check_interval max_wait start (after_sleep d (polled c file_id w)) r w'"
  shows "new_events w w'
           = poll_event c file_id w # Slept d # new_events (after_sleep d (polled c file_id w)) w'"
proof -
  from wait_run_extends [OF assms] obtain evs
    where "events w' = events (after_sleep d (polled c file_id w)) @ evs"
    by blast
  then show ?thesis
    by (simp add: new_events_def after_sleep_def polled_def)
qed

lemma wait_run_within:
  "wait_run c file_id check_interval max_wait start w r w' \<Longrightarrow>
   e \<in> set (polls (new_events w w')) \<Longrightarrow> issued e - start < real_of_int max_wait"
proof (induction rule: wait_run.induct)
  case (poll_again w kvs r w')
  then show ?case
    by (auto simp: new_events_again polls_def)
qed (simp_all add: polls_def)


lemma timeout_error_distinct [simp]:
  "timeout_error max_wait \<noteq> EmailListVerifyError ''File ID is required''"
  "timeout_error max_wait \<noteq> EmailListVerifyError (''Request failed: '' @ m)"
  "timeout_error max_wait \<noteq> EmailListVerifyError ''Unauthorized: invalid API key''"
  "timeout_error max_wait \<noteq> failed_error w kvs"
  "timeout_error max_wait \<noteq> AttributeError"
  "timeout_error max_wait \<noteq> ValueError"
  by (simp_all add: timeout_error_def failed_error_def)

lemmas timeout_error_distinct' [simp] = timeout_error_distinct [THEN not_sym]

lemma response_error_kinds:
  "response_result rp = Inl e \<Longrightarrow>
   e \<noteq> timeout_error max_wait \<and> \<not> is_remote_failure (Inl e)"
  by (auto simp: response_result_def timeout_error_def split: http_reply.splits if_splits
      option.splits)

lemma is_remote_failure_simps [simp]:
  "is_remote_failure (Inl (failed_error w kvs))"
  "\<not> is_remote_failure (Inl (timeout_error max_wait))"
  "\<not> is_remote_failure (Inl (EmailListVerifyError ''File ID is required''))"
  by (simp_all add: failed_error_def timeout_error_def)

lemma wait_run_success:
  "wait_run c file_id check_interval max_wait start w r w' \<Longrightarrow> r = Inr j \<Longrightarrow>
   new_events w w' \<noteq> [] \<and> is_exchange (last (new_events w w'))
   \<and> observed (last (new_events w w')) = Some j \<and> observes_completed (last (new_events w w'))"
proof (induction rule: wait_run.induct)
  case (poll_again w kvs r w')
  then show ?case
    by (simp add: new_events_again)
qed (auto simp: observes_completed_def)

lemma wait_run_completed:
  "wait_run c file_id check_interval max_wait start w r w' \<Longrightarrow>
   e \<in> set (polls (new_events w w')) \<Longrightarrow> observes_completed e \<Longrightarrow> \<exists>j. r = Inr j"
proof (induction rule: wait_run.induct)
  case (poll_again w kvs r w')
  then show ?case
    by (auto simp: new_events_again polls_def observes_completed_def)
qed (auto simp: polls_def observes_completed_def split: sum.splits json.splits)

lemma wait_run_timeout:
  "wait_run c file_id check_interval max_wait start w r w' \<Longrightarrow>
   r = Inl (timeout_error max_wait) \<Longrightarrow> list_all observes_pending (polls (new_events w w'))"
proof (induction rule: wait_run.induct)
  case (poll_again w kvs r w')
  then show ?case
    by (simp add: new_events_again polls_def observes_pending_def)
qed (auto simp: polls_def dest: response_error_kinds)

lemma wait_run_pending:
  "wait_run c file_id check_interval max_wait start w r w' \<Longrightarrow>
   file_id \<noteq> [] \<Longrightarrow> 0 \<le> check_interval \<Longrightarrow>
   list_all observes_pending (polls (new_events w w')) \<Longrightarrow> r = Inl (timeout_error max_wait)"
proof (induction rule: wait_run.induct)
  case (poll_again w kvs r w')
  then show ?case
    by (simp add: new_events_again polls_def)
qed (auto simp: polls_def observes_pending_def split: json.splits)

lemma wait_run_remote_failure:
  "wait_run c file_id check_interval max_wait start w r w' \<Longrightarrow> is_remote_failure r \<Longrightarrow>
   new_events w w' \<noteq> [] \<and> is_exchange (last (new_events w w'))
   \<and> observes_failed (last (new_events w w'))"
proof (induction rule: wait_run.induct)
  case (poll_again w kvs r w')
  then show ?case
    by (simp add: new_events_again)
qed (auto simp: observes_failed_def dest: response_error_kinds)

lemma wait_run_failed:
  "wait_run c file_id check_interval max_wait start w r w' \<Longrightarrow>
   e \<in> set (polls (new_events w w')) \<Longrightarrow> observes_failed e \<Longrightarrow>
   is_remote_failure r \<and> e = last (new_events w w')"
proof (induction rule: wait_run.induct)
  case (poll_again w kvs r w')
  then show ?case
    by (auto simp: new_events_again polls_def observes_failed_def)
qed (auto simp: polls_def observes_failed_def split: sum.splits json.splits)

subsection \<open>Termination of the wait loop\<close>

lemma after_sleep_polled_simps [simp]:
  "lag (after_sleep d (polled c file_id w)) = lag w"
  "clock (after_sleep d (polled c file_id w))
     = clock w + lag w (length (events w)) + d + lag w (Suc (length (events w)))"
  "events (after_sleep d (polled c file_id w)) = events w @ [poll_event c file_id w, Slept d]"
  by (simp_all add: after_sleep_def polled_def)

text \<open>
  The loop ends: when the interval is positive and no effect takes negative time, each
  round moves the clock on by at least the interval, so \<open>fuel\<close> rounds are enough as soon
  as \<open>fuel\<close> intervals cover what is left of the bound.
\<close>

lemma wait_loop_returns:
  assumes "0 < check_interval" and "\<forall>n. 0 \<le> lag w n"
    and "real_of_int max_wait - (clock w - start) \<le> real fuel * real_of_int check_interval"
  shows "\<exists>r w'. wait_loop fuel c file_id check_interval max_wait start w = Some (r, w')"
  using assms(2,3)
proof (induction fuel arbitrary: w)
  case 0
  then show ?case by simp
next
  case (Suc fuel)
  show ?case
  proof (cases "clock w - start < real_of_int max_wait")
    case False
    then show ?thesis
      by (simp del: wait_loop.simps add: wait_loop_timeout)
  next
    case within: True
    show ?thesis
    proof (cases "file_id = []")
      case True
      with within show ?thesis
        by (simp del: wait_loop.simps add: wait_loop_empty_id)
    next
      case nonempty: False
      show ?thesis
      proof (cases rule: result_cases [of "replies w (sent w)"])
        case (err e)
        then show ?thesis
          by (simp del: wait_loop.simps add: wait_loop_error [OF within nonempty])
      next
        case (other j)
        then show ?thesis
          by (simp del: wait_loop.simps add: wait_loop_not_dict [OF within nonempty])
      next
        case (completed kvs)
        then show ?thesis
          by (simp del: wait_loop.simps add: wait_loop_completed [OF within nonempty])
      next
        case (failed kvs)
        then show ?thesis
          by (simp del: wait_loop.simps add: wait_loop_failed [OF within nonempty])
      next
        case (pending kvs)
        let ?w2 = "after_sleep (real_of_int check_interval) (polled c file_id w)"
        have step: "wait_loop (Suc fuel) c file_id check_interval max_wait start w
                      = wait_loop fuel c file_id check_interval max_wait start ?w2"
          using assms(1) by (simp del: wait_loop.simps add: wait_loop_pending [OF within nonempty pending])
        have "0 \<le> lag w (length (events w))" and "0 \<le> lag w (Suc (length (events w)))"
          using Suc.prems(1) by blast+
        then have "clock w + real_of_int check_interval \<le> clock ?w2"
          by simp
        moreover have "real_of_int max_wait - (clock w - start)
                         \<le> real fuel * real_of_int check_interval + real_of_int check_interval"
          using Suc.prems(2) by (simp add: algebra_simps)
        ultimately have "real_of_int max_wait - (clock ?w2 - start)
                         \<le> real fuel * real_of_int check_interval"
          by linarith
        moreover have "\<forall>n. 0 \<le> lag ?w2 n"
          using Suc.prems(1) by simp
        ultimately have "\<exists>r w'. wait_loop fuel c file_id check_interval max_wait start ?w2 = Some (r, w')"
          by (intro Suc.IH)
        then show ?thesis
          by (simp only: step)
      qed
    qed
  qed
qed


subsection \<open>The rounds of a run\<close>

text \<open>
  The log of a run is a sequence of rounds: a poll that observes a status that is neither
  \<open>completed\<close> nor \<open>failed\<close>, then a sleep of \<open>check_interval\<close>; after the rounds comes
  nothing, when the test of the elapsed time ended the run, or one last poll.
\<close>

lemma wait_run_round_log:
  "wait_run c file_id check_interval max_wait start w r w' \<Longrightarrow>
   round_log (real_of_int check_interval) (new_events w w')"
proof (induction rule: wait_run.induct)
  case (poll_again w kvs r w')
  then show ?case
    by (simp add: new_events_again observes_pending_def)
qed simp_all

lemma wait_run_timeout_end:
  "wait_run c file_id check_interval max_wait start w r w' \<Longrightarrow>
   r = Inl (timeout_error max_wait) \<Longrightarrow>
   real_of_int max_wait \<le> clock w' - start
   \<and> (new_events w w' = [] \<or> last (new_events w w') = Slept (real_of_int check_interval))"
proof (induction rule: wait_run.induct)
  case (poll_again w kvs r w')
  then show ?case
    by (auto simp: new_events_again)
qed (auto dest: response_error_kinds)

lemma wait_run_end_timeout:
  "wait_run c file_id check_interval max_wait start w r w' \<Longrightarrow> file_id \<noteq> [] \<Longrightarrow>
   new_events w w' = [] \<or> last (new_events w w') = Slept (real_of_int check_interval) \<Longrightarrow>
   r = Inl (timeout_error max_wait)"
proof (induction rule: wait_run.induct)
  case (poll_again w kvs r w')
  then show ?case
    by (auto simp: new_events_again split: if_splits)
qed (auto simp: poll_event_def)

lemma wait_run_last_poll:
  "wait_run c file_id check_interval max_wait start w r w' \<Longrightarrow> 0 \<le> check_interval \<Longrightarrow>
   new_events w w' \<noteq> [] \<Longrightarrow> is_exchange (last (new_events w w')) \<Longrightarrow>
   \<not> observes_pending (last (new_events w w'))"
proof (induction rule: wait_run.induct)
  case (poll_again w kvs r w')
  then show ?case
    by (auto simp: new_events_again split: if_splits)
qed (auto simp: observes_pending_def split: json.splits)

lemma wait_run_empty_id:
  "wait_run c file_id check_interval max_wait start w r w' \<Longrightarrow> file_id = [] \<Longrightarrow>
   clock w - start < real_of_int max_wait \<Longrightarrow>
   r = Inl (EmailListVerifyError ''File ID is required'') \<and> w' = w"
  by (erule wait_run.cases) simp_all

lemma wait_run_negative:
  "wait_run c file_id check_interval max_wait start w r w' \<Longrightarrow> file_id \<noteq> [] \<Longrightarrow>
   check_interval < 0 \<Longrightarrow> clock w - start < real_of_int max_wait \<Longrightarrow>
   w' = polled c file_id w
   \<and> (r = Inl ValueError \<longleftrightarrow> observes_pending (poll_event c file_id w))"
  by (erule wait_run.cases)
    (auto simp: observes_pending_def failed_error_def response_result_def
      split: json.splits http_reply.splits if_splits option.splits)

subsection \<open>Sample runs\<close>

text \<open>
  A job completed at the second poll; a job that is still being processed when the bound
  of 15 seconds is reached; the first of these jobs awaited with a negative interval; and
  a job that has failed at the second poll.
\<close>

lemma completing_run:
  "wait_for_bulk_completion 360 sample_client ''f1'' 10 3600 completing_world
     = Some (Inr (status_record ''completed''),
             polled sample_client ''f1''
               (after_sleep 10 (polled sample_client ''f1'' completing_world)))"
  by (simp add: wait_for_bulk_completion_def eval_nat_numeral get_bulk_status_poll
      time_sleep_effect completing_world_def sample_world_def json_reply_def status_record_def
      response_result_def is_success_def polled_def after_sleep_def)

lemma sample_lag_nonneg: "\<forall>n. 0 \<le> lag (sample_world rs) n"
  by (simp add: sample_world_def)

lemma stalled_facts:
  "clock stalled_world = 0" "lag stalled_world = (\<lambda>n. if even n then 1 else 0)"
  "events stalled_world = []" "sent stalled_world = 0"
  "replies stalled_world = (\<lambda>n. json_reply (status_record ''processing''))"
  by (simp_all add: stalled_world_def sample_world_def)

lemma processing_result:
  "response_result (json_reply (status_record ''processing''))
     = Inr (JObj [(''status'', JStr ''processing'')])"
  by (simp add: json_reply_def status_record_def response_result_def is_success_def)

lemma stalled_run:
  "wait_for_bulk_completion 5 sample_client ''f1'' 10 15 stalled_world
     = Some (Inl (timeout_error 15),
             after_sleep 10 (polled sample_client ''f1''
               (after_sleep 10 (polled sample_client ''f1'' stalled_world))))"
proof -
  let ?w1 = "after_sleep 10 (polled sample_client ''f1'' stalled_world)"
  let ?w2 = "after_sleep 10 (polled sample_client ''f1'' ?w1)"
  have r1: "replies ?w1 = replies stalled_world" "sent ?w1 = 1"
    by (simp_all add: after_sleep_def polled_def stalled_facts)
  have c1: "clock ?w1 = 11"
    by (simp add: stalled_facts)
  have l1: "lag ?w1 = lag stalled_world" "length (events ?w1) = 2"
    by (simp_all add: stalled_facts)
  have c2: "clock ?w2 = 22"
    by (simp add: c1 l1 stalled_facts)
  have "wait_loop 5 sample_client ''f1'' 10 15 (clock stalled_world) stalled_world
          = wait_loop 4 sample_client ''f1'' 10 15 (clock stalled_world) ?w1"
    using wait_loop_pending [of stalled_world 0 15 "''f1''" _ 4 sample_client 10]
    by (simp add: stalled_facts processing_result eval_nat_numeral del: wait_loop.simps)
  also have "\<dots> = wait_loop 3 sample_client ''f1'' 10 15 (clock stalled_world) ?w2"
    using wait_loop_pending [of ?w1 0 15 "''f1''" _ 3 sample_client 10]
    by (simp add: stalled_facts r1 c1 processing_result eval_nat_numeral del: wait_loop.simps)
  also have "\<dots> = Some (Inl (timeout_error 15), ?w2)"
    by (simp add: wait_loop_timeout c2 stalled_facts del: wait_loop.simps)
  finally show ?thesis
    by (simp add: wait_for_bulk_completion_def)
qed

lemma show_15: "show_int 15 = ''15''"
  by (simp add: show_int_def show_nat.simps digit_char_def)

lemma hasty_run:
  "wait_for_bulk_completion 5 sample_client ''f1'' (- 5) 3600 completing_world
     = Some (Inl ValueError, polled sample_client ''f1'' completing_world)"
  by (simp add: wait_for_bulk_completion_def eval_nat_numeral get_bulk_status_poll
      time_sleep_effect completing_world_def sample_world_def json_reply_def status_record_def
      response_result_def is_success_def)

lemma failing_run:
  "wait_for_bulk_completion 5 sample_client ''f1'' 10 3600 failing_world
     = Some (Inl (EmailListVerifyError ''Bulk verification failed: Unknown error''),
             polled sample_client ''f1''
               (after_sleep 10 (polled sample_client ''f1'' failing_world)))"
  by (simp add: wait_for_bulk_completion_def eval_nat_numeral get_bulk_status_poll
      time_sleep_effect failing_world_def sample_world_def json_reply_def status_record_def
      response_result_def is_success_def polled_def after_sleep_def failed_error_def)

subsection \<open>The outcome of the wait\<close>

text \<open>
  With an empty file id the status call itself fails with \<open>File ID is required\<close> before
  anything is sent: no poll of the run observes \<open>completed\<close> or \<open>failed\<close>, and yet the
  wait does not fail with the timeout error. With a negative interval the first poll
  observes \<open>processing\<close> and the sleep raises \<open>ValueError\<close>: again every poll of the run
  observes a status that is not terminal, and the wait does not fail with the timeout
  error.
\<close>

theorem wait_empty_id_counterexample:
  "wait_for_bulk_completion 5 sample_client [] 10 3600 (sample_world [])
     = Some (Inl (EmailListVerifyError ''File ID is required''), sample_world [])
   \<and> list_all observes_pending (polls (new_events (sample_world []) (sample_world [])))
   \<and> (Inl (EmailListVerifyError ''File ID is required'') :: error + json)
       \<noteq> Inl (timeout_error 3600)
   \<and> wait_for_bulk_completion 5 sample_client ''f1'' (- 5) 3600 completing_world
       = Some (Inl ValueError, polled sample_client ''f1'' completing_world)
   \<and> list_all observes_pending
        (polls (new_events completing_world (polled sample_client ''f1'' completing_world)))
   \<and> (Inl ValueError :: error + json) \<noteq> Inl (timeout_error 3600)"
proof -
  have "wait_for_bulk_completion 5 sample_client [] 10 3600 (sample_world [])
     = Some (Inl (EmailListVerifyError ''File ID is required''), sample_world [])"
    by (simp add: wait_for_bulk_completion_def eval_nat_numeral get_bulk_status_empty
        sample_world_def)
  moreover have "list_all observes_pending
        (polls (new_events completing_world (polled sample_client ''f1'' completing_world)))"
    by (simp add: polls_def observes_pending_def completing_world_def sample_world_def
        json_reply_def status_record_def response_result_def is_success_def)
  ultimately show ?thesis
    by (simp add: hasty_run polls_def)
qed

text \<open>
  C1 (amended): the wait returns (enough fuel gives a result), and for every result: every
  status poll of the run was sent strictly within \<open>max_wait\<close> of the start; the wait
  succeeds exactly when one of these polls observes \<open>completed\<close>, and it then returns the
  record of its last poll; it fails with the remote-failure error exactly when a poll
  observes \<open>failed\<close>, and that poll is the last event of the run, whatever time is left;
  when it fails with the timeout error, every poll of the run has observed a status that
  is neither \<open>completed\<close> nor \<open>failed\<close>, and for a non-empty file id and a non-negative
  interval the converse holds. For an empty file id and a positive bound it fails with
  \<open>File ID is required\<close> in an unchanged world: nothing is sent. For a non-empty file id,
  a negative interval and a positive bound the run is one poll, and it fails with
  \<open>ValueError\<close> exactly when that poll observes a status that is not terminal.
\<close>

theorem wait_for_completion_outcome:
  "(0 < check_interval \<and> (\<forall>n. 0 \<le> lag w n)
      \<and> real_of_int max_wait \<le> real fuel * real_of_int check_interval \<longrightarrow>
      (\<exists>r w'. wait_for_bulk_completion fuel c file_id check_interval max_wait w = Some (r, w')))
   \<and> (wait_for_bulk_completion fuel c file_id check_interval max_wait w = Some (r, w') \<longrightarrow>
        (\<forall>e\<in>set (polls (new_events w w')). issued e - clock w < real_of_int max_wait)
      \<and> ((\<exists>j. r = Inr j) \<longleftrightarrow> (\<exists>e\<in>set (polls (new_events w w')). observes_completed e))
      \<and> (\<forall>j. r = Inr j \<longrightarrow> observed (last (new_events w w')) = Some j)
      \<and> (file_id \<noteq> [] \<and> 0 \<le> check_interval \<longrightarrow>
           (r = Inl (timeout_error max_wait)
              \<longleftrightarrow> list_all observes_pending (polls (new_events w w'))))
      \<and> (is_remote_failure r \<longleftrightarrow> (\<exists>e\<in>set (polls (new_events w w')). observes_failed e))
      \<and> (\<forall>e\<in>set (polls (new_events w w')). observes_failed e \<longrightarrow> e = last (new_events w w'))
      \<and> (r = Inl (timeout_error max_wait) \<longrightarrow>
           list_all observes_pending (polls (new_events w w')))
      \<and> (file_id = [] \<and> 0 < max_wait \<longrightarrow>
           r = Inl (EmailListVerifyError ''File ID is required'') \<and> w' = w)
      \<and> (file_id \<noteq> [] \<and> check_interval < 0 \<and> 0 < max_wait \<longrightarrow>
           w' = polled c file_id w
         \<and> (r = Inl ValueError \<longleftrightarrow> observes_pending (poll_event c file_id w))))
   \<and> (0 < max_wait \<longrightarrow>
        wait_for_bulk_completion (Suc fuel) c [] check_interval max_wait w
          = Some (Inl (EmailListVerifyError ''File ID is required''), w))"
proof (intro conjI impI)
  assume "0 < check_interval \<and> (\<forall>n. 0 \<le> lag w n)
      \<and> real_of_int max_wait \<le> real fuel * real_of_int check_interval"
  then show "\<exists>r w'. wait_for_bulk_completion fuel c file_id check_interval max_wait w = Some (r, w')"
    unfolding wait_for_bulk_completion_def by (intro wait_loop_returns) simp_all
next
  assume "0 < max_wait"
  then show "wait_for_bulk_completion (Suc fuel) c [] check_interval max_wait w
          = Some (Inl (EmailListVerifyError ''File ID is required''), w)"
    unfolding wait_for_bulk_completion_def by (intro wait_loop_empty_id) simp
next
  assume "wait_for_bulk_completion fuel c file_id check_interval max_wait w = Some (r, w')"
  then have run: "wait_run c file_id check_interval max_wait (clock w) w r w'"
    unfolding wait_for_bulk_completion_def by (rule wait_loop_run)
  show "\<forall>e\<in>set (polls (new_events w w')). issued e - clock w < real_of_int max_wait"
    using wait_run_within [OF run] by blast
  show "(\<exists>j. r = Inr j) \<longleftrightarrow> (\<exists>e\<in>set (polls (new_events w w')). observes_completed e)"
  proof
    assume "\<exists>j. r = Inr j"
    then obtain j where "r = Inr j" by blast
    from wait_run_success [OF run this]
    have "last (new_events w w') \<in> set (polls (new_events w w'))"
      and "observes_completed (last (new_events w w'))"
      by (simp_all add: polls_def)
    then show "\<exists>e\<in>set (polls (new_events w w')). observes_completed e"
      by blast
  next
    assume "\<exists>e\<in>set (polls (new_events w w')). observes_completed e"
    then show "\<exists>j. r = Inr j"
      using wait_run_completed [OF run] by blast
  qed
  show "\<forall>j. r = Inr j \<longrightarrow> observed (last (new_events w w')) = Some j"
    using wait_run_success [OF run] by blast
  show "is_remote_failure r \<longleftrightarrow> (\<exists>e\<in>set (polls (new_events w w')). observes_failed e)"
  proof
    assume "is_remote_failure r"
    from wait_run_remote_failure [OF run this]
    have "last (new_events w w') \<in> set (polls (new_events w w'))"
      and "observes_failed (last (new_events w w'))"
      by (simp_all add: polls_def)
    then show "\<exists>e\<in>set (polls (new_events w w')). observes_failed e"
      by blast
  next
    assume "\<exists>e\<in>set (polls (new_events w w')). observes_failed e"
    then show "is_remote_failure r"
      using wait_run_failed [OF run] by blast
  qed
  show "\<forall>e\<in>set (polls (new_events w w')). observes_failed e \<longrightarrow> e = last (new_events w w')"
    using wait_run_failed [OF run] by blast
  show "r = Inl (timeout_error max_wait)
          \<longleftrightarrow> list_all observes_pending (polls (new_events w w'))"
    if "file_id \<noteq> [] \<and> 0 \<le> check_interval"
    using that wait_run_timeout [OF run] wait_run_pending [OF run] by blast
  show "list_all observes_pending (polls (new_events w w'))"
    if "r = Inl (timeout_error max_wait)"
    using that by (rule wait_run_timeout [OF run])
  show "r = Inl (EmailListVerifyError ''File ID is required'')"
    if "file_id = [] \<and> 0 < max_wait"
    using that wait_run_empty_id [OF run] by simp
  show "w' = w"
    if "file_id = [] \<and> 0 < max_wait"
    using that wait_run_empty_id [OF run] by simp
  show "w' = polled c file_id w"
    if "file_id \<noteq> [] \<and> check_interval < 0 \<and> 0 < max_wait"
    using that wait_run_negative [OF run] by simp
  show "r = Inl ValueError \<longleftrightarrow> observes_pending (poll_event c file_id w)"
    if "file_id \<noteq> [] \<and> check_interval < 0 \<and> 0 < max_wait"
    using that wait_run_negative [OF run] by simp
qed

theorem wait_for_completion_outcome_witness:
  "(0::int) < 10 \<and> (\<forall>n. 0 \<le> lag completing_world n)
   \<and> real_of_int 3600 \<le> real 360 * real_of_int 10 \<and> ''f1'' \<noteq> []
   \<and> wait_for_bulk_completion 360 sample_client ''f1'' 10 3600 completing_world
       = Some (Inr (status_record ''completed''),
               polled sample_client ''f1''
                 (after_sleep 10 (polled sample_client ''f1'' completing_world)))
   \<and> (\<exists>e\<in>set (polls (new_events completing_world
          (polled sample_client ''f1''
             (after_sleep 10 (polled sample_client ''f1'' completing_world))))).
         observes_completed e)
   \<and> observed (last (new_events completing_world
          (polled sample_client ''f1''
             (after_sleep 10 (polled sample_client ''f1'' completing_world)))))
       = Some (status_record ''completed'')
   \<and> \<not> list_all observes_pending (polls (new_events completing_world
          (polled sample_client ''f1''
             (after_sleep 10 (polled sample_client ''f1'' completing_world)))))
   \<and> wait_for_bulk_completion 5 sample_client ''f1'' 10 15 stalled_world
       = Some (Inl (timeout_error 15),
               after_sleep 10 (polled sample_client ''f1''
                 (after_sleep 10 (polled sample_client ''f1'' stalled_world))))
   \<and> list_all observes_pending (polls (new_events stalled_world
          (after_sleep 10 (polled sample_client ''f1''
             (after_sleep 10 (polled sample_client ''f1'' stalled_world))))))
   \<and> wait_for_bulk_completion 5 sample_client [] 10 3600 (sample_world [])
       = Some (Inl (EmailListVerifyError ''File ID is required''), sample_world [])
   \<and> wait_for_bulk_completion 5 sample_client ''f1'' (- 5) 3600 completing_world
       = Some (Inl ValueError, polled sample_client ''f1'' completing_world)
   \<and> observes_pending (poll_event sample_client ''f1'' completing_world)
   \<and> wait_for_bulk_completion 5 sample_client ''f1'' 10 3600 failing_world
       = Some (Inl (EmailListVerifyError ''Bulk verification failed: Unknown error''),
               polled sample_client ''f1''
                 (after_sleep 10 (polled sample_client ''f1'' failing_world)))
   \<and> is_remote_failure
        (Inl (EmailListVerifyError ''Bulk verification failed: Unknown error''))
   \<and> (\<exists>e\<in>set (polls (new_events failing_world
          (polled sample_client ''f1''
             (after_sleep 10 (polled sample_client ''f1'' failing_world))))).
         observes_failed e)
   \<and> observes_failed (last (new_events failing_world
          (polled sample_client ''f1''
             (after_sleep 10 (polled sample_client ''f1'' failing_world)))))"
proof -
  let ?wf = "polled sample_client ''f1''
               (after_sleep 10 (polled sample_client ''f1'' failing_world))"
  let ?wc = "polled sample_client ''f1''
               (after_sleep 10 (polled sample_client ''f1'' completing_world))"
  let ?ws = "after_sleep 10 (polled sample_client ''f1''
               (after_sleep 10 (polled sample_client ''f1'' stalled_world)))"
  have lagpos: "\<forall>n. 0 \<le> lag completing_world n"
    unfolding completing_world_def by (rule sample_lag_nonneg)
  have nt: "Inr (status_record ''completed'') \<noteq> (Inl (timeout_error 3600) :: error + json)"
    by simp
  from wait_for_completion_outcome [of 10 completing_world 3600 360 sample_client "''f1''"
      "Inr (status_record ''completed'')" ?wc] completing_run lagpos nt
  have a: "(\<exists>e\<in>set (polls (new_events completing_world ?wc)). observes_completed e)
     \<and> observed (last (new_events completing_world ?wc)) = Some (status_record ''completed'')
     \<and> \<not> list_all observes_pending (polls (new_events completing_world ?wc))"
    by auto
  from wait_for_completion_outcome [where check_interval = 10 and w = stalled_world
      and max_wait = 15 and fuel = 5 and c = sample_client and file_id = "''f1''"
      and r = "Inl (timeout_error 15)" and w' = ?ws] stalled_run
  have b: "list_all observes_pending (polls (new_events stalled_world ?ws))"
    by simp
  have five: "Suc 4 = 5"
    by simp
  from wait_for_completion_outcome [where check_interval = 10 and w = "sample_world []"
      and max_wait = 3600 and fuel = 4 and c = sample_client]
  have "wait_for_bulk_completion (Suc 4) sample_client [] 10 3600 (sample_world [])
       = Some (Inl (EmailListVerifyError ''File ID is required''), sample_world [])"
    by simp
  then have d: "wait_for_bulk_completion 5 sample_client [] 10 3600 (sample_world [])
       = Some (Inl (EmailListVerifyError ''File ID is required''), sample_world [])"
    by (simp only: five)
  from wait_for_completion_outcome [where check_interval = "- 5" and w = completing_world
      and max_wait = 3600 and fuel = 5 and c = sample_client and file_id = "''f1''"
      and r = "Inl ValueError" and w' = "polled sample_client ''f1'' completing_world"]
    hasty_run
  have e: "observes_pending (poll_event sample_client ''f1'' completing_world)"
    by simp
  have n: "(0::int) < 10" "real_of_int 3600 \<le> real 360 * real_of_int 10" "''f1'' \<noteq> []"
    by simp_all
  have rf: "is_remote_failure
        (Inl (EmailListVerifyError ''Bulk verification failed: Unknown error''))"
    by simp
  note t = wait_for_completion_outcome [where check_interval = 10 and w = failing_world
      and max_wait = 3600 and fuel = 5 and c = sample_client and file_id = "''f1''"
      and r = "Inl (EmailListVerifyError ''Bulk verification failed: Unknown error'')"
      and w' = ?wf, THEN conjunct2, THEN conjunct1, THEN mp, OF failing_run]
  from t rf
  have f: "\<exists>e\<in>set (polls (new_events failing_world ?wf)). observes_failed e"
    by blast
  from t f have g: "observes_failed (last (new_events failing_world ?wf))"
    by blast
  from n lagpos completing_run a stalled_run b d hasty_run e failing_run rf f g show ?thesis
    by - ((elim conjE)?, (intro conjI; assumption))
qed

subsection \<open>One round, and the bound\<close>

text \<open>
  With a negative interval, after a poll that observes \<open>processing\<close> the sleep raises
  \<open>ValueError\<close>: the run is that one poll, nothing sleeps, and the wait fails with
  \<open>ValueError\<close>, not with the timeout error.
\<close>

theorem wait_negative_interval_counterexample:
  "wait_for_bulk_completion 5 sample_client ''f1'' (- 1) 15 stalled_world
     = Some (Inl ValueError, polled sample_client ''f1'' stalled_world)
   \<and> observes_pending (poll_event sample_client ''f1'' stalled_world)
   \<and> new_events stalled_world (polled sample_client ''f1'' stalled_world)
       = [poll_event sample_client ''f1'' stalled_world]
   \<and> (Inl ValueError :: error + json) \<noteq> Inl (timeout_error 15)"
proof -
  have "wait_loop 5 sample_client ''f1'' (- 1) 15 (clock stalled_world) stalled_world
          = Some (Inl ValueError, polled sample_client ''f1'' stalled_world)"
    using wait_loop_pending [of stalled_world 0 15 "''f1''" _ 4 sample_client "- 1"]
    by (simp add: stalled_facts processing_result eval_nat_numeral del: wait_loop.simps)
  moreover have "observes_pending (poll_event sample_client ''f1'' stalled_world)"
    by (simp add: observes_pending_def stalled_facts processing_result)
  ultimately show ?thesis
    by (simp add: wait_for_bulk_completion_def)
qed

text \<open>
  C2 (amended): for a non-negative interval, a round of \<open>wait_for_bulk_completion\<close> whose
  poll observes a status that is neither \<open>completed\<close> nor \<open>failed\<close> sleeps
  \<open>check_interval\<close> and then goes back to the test of the elapsed time, in the world where
  the poll and the sleep have taken their time: this holds for the first round of the call,
  whose start is the clock of the world it is called in, and for every later round.
  Whenever the test finds the elapsed time at or over \<open>max_wait\<close>, the wait fails with the
  timeout error, whose message holds the bound, in the same world: nothing more is sent.
  For every result of the call: every poll of the run was sent with the elapsed time under
  the bound; the log of the run is a sequence of rounds (a poll that is not terminal, then
  a sleep of \<open>check_interval\<close>) followed by nothing or by one last poll; for a non-empty
  file id the wait fails with the timeout error exactly when the log is empty or ends with
  a sleep, and then the elapsed time is at or over the bound; and for a non-negative
  interval a run never ends with a poll that observes a status that is not terminal. For a
  negative interval the first such poll makes the wait fail with \<open>ValueError\<close>.
\<close>

theorem wait_round:
  "(0 < max_wait \<and> file_id \<noteq> [] \<and> 0 \<le> check_interval
      \<and> observes_pending (poll_event c file_id w) \<longrightarrow>
      wait_for_bulk_completion (Suc fuel) c file_id check_interval max_wait w
        = wait_loop fuel c file_id check_interval max_wait (clock w)
            (after_sleep (real_of_int check_interval) (polled c file_id w))
      \<and> events (after_sleep (real_of_int check_interval) (polled c file_id w))
        = events w @ [poll_event c file_id w, Slept (real_of_int check_interval)]
      \<and> clock (after_sleep (real_of_int check_interval) (polled c file_id w))
        = clock w + lag w (length (events w)) + real_of_int check_interval
            + lag w (Suc (length (events w))))
   \<and> (clock w - start < real_of_int max_wait \<and> file_id \<noteq> [] \<and> 0 \<le> check_interval
      \<and> observes_pending (poll_event c file_id w) \<longrightarrow>
      wait_loop (Suc fuel) c file_id check_interval max_wait start w
        = wait_loop fuel c file_id check_interval max_wait start
            (after_sleep (real_of_int check_interval) (polled c file_id w)))
   \<and> (\<not> clock w - start < real_of_int max_wait \<longrightarrow>
      wait_loop fuel c file_id check_interval max_wait start w
        = Some (Inl (EmailListVerifyError
                      (''Timeout waiting for bulk verification (waited '' @ show_int max_wait
                         @ ''s)'')), w))
   \<and> (wait_for_bulk_completion fuel c file_id check_interval max_wait w = Some (r, w') \<longrightarrow>
        (\<forall>e\<in>set (polls (new_events w w')). issued e - clock w < real_of_int max_wait)
      \<and> round_log (real_of_int check_interval) (new_events w w')
      \<and> (r = Inl (timeout_error max_wait) \<longrightarrow> real_of_int max_wait \<le> clock w' - clock w)
      \<and> (file_id \<noteq> [] \<longrightarrow>
           (r = Inl (timeout_error max_wait)
              \<longleftrightarrow> new_events w w' = []
                    \<or> last (new_events w w') = Slept (real_of_int check_interval)))
      \<and> (0 \<le> check_interval \<and> new_events w w' \<noteq> [] \<and> is_exchange (last (new_events w w'))
            \<longrightarrow> \<not> observes_pending (last (new_events w w'))))
   \<and> (0 < max_wait \<and> file_id \<noteq> [] \<and> check_interval < 0
      \<and> observes_pending (poll_event c file_id w) \<longrightarrow>
      wait_for_bulk_completion (Suc fuel) c file_id check_interval max_wait w
        = Some (Inl ValueError, polled c file_id w))"
proof -
  have pending: "\<exists>kvs. response_result (replies w (sent w)) = Inr (JObj kvs)
      \<and> map_of kvs ''status'' \<noteq> Some (JStr ''completed'')
      \<and> map_of kvs ''status'' \<noteq> Some (JStr ''failed'')"
    if "observes_pending (poll_event c file_id w)"
    using that by (auto simp: observes_pending_def split: sum.splits json.splits)
  have step: "wait_loop (Suc fuel) c file_id check_interval max_wait s w
        = wait_loop fuel c file_id check_interval max_wait s
            (after_sleep (real_of_int check_interval) (polled c file_id w))"
    if "clock w - s < real_of_int max_wait \<and> file_id \<noteq> [] \<and> 0 \<le> check_interval
      \<and> observes_pending (poll_event c file_id w)" for s
  proof -
    from that pending obtain kvs where "response_result (replies w (sent w)) = Inr (JObj kvs)"
      and "map_of kvs ''status'' \<noteq> Some (JStr ''completed'')"
      and "map_of kvs ''status'' \<noteq> Some (JStr ''failed'')"
      by blast
    with that show ?thesis
      by (simp del: wait_loop.simps add: wait_loop_pending)
  qed
  have first: "wait_for_bulk_completion (Suc fuel) c file_id check_interval max_wait w
        = wait_loop fuel c file_id check_interval max_wait (clock w)
            (after_sleep (real_of_int check_interval) (polled c file_id w))"
    if "0 < max_wait \<and> file_id \<noteq> [] \<and> 0 \<le> check_interval
      \<and> observes_pending (poll_event c file_id w)"
    unfolding wait_for_bulk_completion_def using that by (intro step) simp
  have late: "wait_loop fuel c file_id check_interval max_wait start w
        = Some (Inl (EmailListVerifyError
                      (''Timeout waiting for bulk verification (waited '' @ show_int max_wait
                         @ ''s)'')), w)"
    if "\<not> clock w - start < real_of_int max_wait"
    using that by (simp del: wait_loop.simps add: wait_loop_timeout timeout_error_def)
  have negative: "wait_for_bulk_completion (Suc fuel) c file_id check_interval max_wait w
        = Some (Inl ValueError, polled c file_id w)"
    if a: "0 < max_wait \<and> file_id \<noteq> [] \<and> check_interval < 0
      \<and> observes_pending (poll_event c file_id w)"
  proof -
    from a pending obtain kvs where "response_result (replies w (sent w)) = Inr (JObj kvs)"
      and "map_of kvs ''status'' \<noteq> Some (JStr ''completed'')"
      and "map_of kvs ''status'' \<noteq> Some (JStr ''failed'')"
      by blast
    with a show ?thesis
      unfolding wait_for_bulk_completion_def
      by (simp del: wait_loop.simps add: wait_loop_pending)
  qed
  have run: "wait_run c file_id check_interval max_wait (clock w) w r w'"
    if "wait_for_bulk_completion fuel c file_id check_interval max_wait w = Some (r, w')"
    using that unfolding wait_for_bulk_completion_def by (rule wait_loop_run)
  show ?thesis
  proof (intro conjI impI)
    show "wait_for_bulk_completion (Suc fuel) c file_id check_interval max_wait w
        = wait_loop fuel c file_id check_interval max_wait (clock w)
            (after_sleep (real_of_int check_interval) (polled c file_id w))"
      if "0 < max_wait \<and> file_id \<noteq> [] \<and> 0 \<le> check_interval
        \<and> observes_pending (poll_event c file_id w)"
      using that by (rule first)
    show "wait_loop (Suc fuel) c file_id check_interval max_wait start w
        = wait_loop fuel c file_id check_interval max_wait start
            (after_sleep (real_of_int check_interval) (polled c file_id w))"
      if "clock w - start < real_of_int max_wait \<and> file_id \<noteq> [] \<and> 0 \<le> check_interval
        \<and> observes_pending (poll_event c file_id w)"
      using that by (rule step)
    show "wait_loop fuel c file_id check_interval max_wait start w
        = Some (Inl (EmailListVerifyError
                      (''Timeout waiting for bulk verification (waited '' @ show_int max_wait
                         @ ''s)'')), w)"
      if "\<not> clock w - start < real_of_int max_wait"
      using that by (rule late)
    show "wait_for_bulk_completion (Suc fuel) c file_id check_interval max_wait w
        = Some (Inl ValueError, polled c file_id w)"
      if "0 < max_wait \<and> file_id \<noteq> [] \<and> check_interval < 0
        \<and> observes_pending (poll_event c file_id w)"
      using that by (rule negative)
  next
    assume a: "wait_for_bulk_completion fuel c file_id check_interval max_wait w = Some (r, w')"
    note r = run [OF a]
    show "\<forall>e\<in>set (polls (new_events w w')). issued e - clock w < real_of_int max_wait"
      using wait_run_within [OF r] by blast
    show "round_log (real_of_int check_interval) (new_events w w')"
      by (rule wait_run_round_log [OF r])
    show "real_of_int max_wait \<le> clock w' - clock w"
      if "r = Inl (timeout_error max_wait)"
      using wait_run_timeout_end [OF r that] by simp
    show "r = Inl (timeout_error max_wait)
            \<longleftrightarrow> new_events w w' = []
                  \<or> last (new_events w w') = Slept (real_of_int check_interval)"
      if "file_id \<noteq> []"
      using wait_run_timeout_end [OF r] wait_run_end_timeout [OF r that] by blast
    show "\<not> observes_pending (last (new_events w w'))"
      if "0 \<le> check_interval \<and> new_events w w' \<noteq> [] \<and> is_exchange (last (new_events w w'))"
      using that wait_run_last_poll [OF r] by blast
  qed simp_all
qed

theorem wait_round_witness:
  "wait_for_bulk_completion 5 sample_client ''f1'' 10 15 stalled_world
     = wait_loop 4 sample_client ''f1'' 10 15 (clock stalled_world)
         (after_sleep 10 (polled sample_client ''f1'' stalled_world))
   \<and> clock (after_sleep 10 (polled sample_client ''f1'' stalled_world)) = 11
   \<and> wait_loop 4 sample_client ''f1'' 10 15 0
         (after_sleep 10 (polled sample_client ''f1'' stalled_world))
     = wait_loop 3 sample_client ''f1'' 10 15 0
         (after_sleep 10 (polled sample_client ''f1''
           (after_sleep 10 (polled sample_client ''f1'' stalled_world))))
   \<and> wait_loop 3 sample_client ''f1'' 10 15 0
        (after_sleep 10 (polled sample_client ''f1''
           (after_sleep 10 (polled sample_client ''f1'' stalled_world))))
     = Some (Inl (EmailListVerifyError ''Timeout waiting for bulk verification (waited 15s)''),
             after_sleep 10 (polled sample_client ''f1''
               (after_sleep 10 (polled sample_client ''f1'' stalled_world))))
   \<and> wait_for_bulk_completion 5 sample_client ''f1'' 10 15 stalled_world
     = Some (Inl (timeout_error 15),
             after_sleep 10 (polled sample_client ''f1''
               (after_sleep 10 (polled sample_client ''f1'' stalled_world))))
   \<and> list_all (\<lambda>e. issued e - clock stalled_world < 15)
        (polls (new_events stalled_world
          (after_sleep 10 (polled sample_client ''f1''
             (after_sleep 10 (polled sample_client ''f1'' stalled_world))))))
   \<and> round_log 10
        (new_events stalled_world
          (after_sleep 10 (polled sample_client ''f1''
             (after_sleep 10 (polled sample_client ''f1'' stalled_world)))))
   \<and> 15 \<le> clock (after_sleep 10 (polled sample_client ''f1''
               (after_sleep 10 (polled sample_client ''f1'' stalled_world))))
            - clock stalled_world
   \<and> last (new_events stalled_world
          (after_sleep 10 (polled sample_client ''f1''
             (after_sleep 10 (polled sample_client ''f1'' stalled_world)))))
      = Slept 10
   \<and> is_exchange (last (new_events completing_world
          (polled sample_client ''f1''
             (after_sleep 10 (polled sample_client ''f1'' completing_world)))))
   \<and> \<not> observes_pending (last (new_events completing_world
          (polled sample_client ''f1''
             (after_sleep 10 (polled sample_client ''f1'' completing_world)))))
   \<and> wait_for_bulk_completion 5 sample_client ''f1'' (- 5) 3600 completing_world
       = Some (Inl ValueError, polled sample_client ''f1'' completing_world)"
proof -
  let ?wa = "after_sleep 10 (polled sample_client ''f1'' stalled_world)"
  let ?wb = "after_sleep 10 (polled sample_client ''f1'' ?wa)"
  let ?wc = "polled sample_client ''f1''
               (after_sleep 10 (polled sample_client ''f1'' completing_world))"
  have five: "Suc 4 = 5" and four: "Suc 3 = 4"
    by simp_all
  have p: "(0::int) < 15 \<and> ''f1'' \<noteq> [] \<and> (0::int) \<le> 10
      \<and> observes_pending (poll_event sample_client ''f1'' stalled_world)"
    by (simp add: observes_pending_def stalled_facts processing_result)
  have ca: "clock ?wa = 11"
    by (simp add: stalled_facts)
  have ra: "replies ?wa = replies stalled_world" "lag ?wa = lag stalled_world"
    "length (events ?wa) = 2"
    by (simp_all add: after_sleep_def polled_def stalled_facts)
  have q: "clock ?wa - 0 < real_of_int 15 \<and> ''f1'' \<noteq> [] \<and> (0::int) \<le> 10
      \<and> observes_pending (poll_event sample_client ''f1'' ?wa)"
    by (simp add: observes_pending_def ca ra stalled_facts processing_result)
  have late: "\<not> clock ?wb - 0 < real_of_int 15"
    by (simp add: ca ra stalled_facts)
  from wait_round [where w = stalled_world and max_wait = 15 and file_id = "''f1''"
      and check_interval = 10 and c = sample_client and fuel = 4] p
  have "wait_for_bulk_completion (Suc 4) sample_client ''f1'' 10 15 stalled_world
             = wait_loop 4 sample_client ''f1'' 10 15 (clock stalled_world) ?wa"
    by (simp del: wait_loop.simps)
  then have a: "wait_for_bulk_completion 5 sample_client ''f1'' 10 15 stalled_world
             = wait_loop 4 sample_client ''f1'' 10 15 (clock stalled_world) ?wa"
    by (simp only: five)
  from wait_round [where w = ?wa and start = 0 and max_wait = 15 and file_id = "''f1''"
      and check_interval = 10 and c = sample_client and fuel = 3] q
  have "wait_loop (Suc 3) sample_client ''f1'' 10 15 0 ?wa
             = wait_loop 3 sample_client ''f1'' 10 15 0 ?wb"
    by (simp del: wait_loop.simps)
  then have b: "wait_loop 4 sample_client ''f1'' 10 15 0 ?wa
             = wait_loop 3 sample_client ''f1'' 10 15 0 ?wb"
    by (simp only: four)
  from wait_round [where w = ?wb and start = 0 and max_wait = 15 and file_id = "''f1''"
      and check_interval = 10 and c = sample_client and fuel = 3] late
  have d: "wait_loop 3 sample_client ''f1'' 10 15 0 ?wb
     = Some (Inl (EmailListVerifyError ''Timeout waiting for bulk verification (waited 15s)''), ?wb)"
    by (simp add: show_15 del: wait_loop.simps)
  note t = wait_round [where w = stalled_world and max_wait = 15 and file_id = "''f1''"
      and check_interval = 10 and c = sample_client and fuel = 5 and w' = ?wb
      and r = "Inl (timeout_error 15)", THEN conjunct2, THEN conjunct2, THEN conjunct2,
      THEN conjunct1, THEN mp, OF stalled_run]
  from t have e: "list_all (\<lambda>e. issued e - clock stalled_world < 15)
             (polls (new_events stalled_world ?wb))"
    by (simp add: list_all_iff del: wait_loop.simps)
  from t have f: "round_log 10 (new_events stalled_world ?wb)"
    by simp
  from t have g: "15 \<le> clock ?wb - clock stalled_world"
    by simp
  have ne: "new_events stalled_world ?wb \<noteq> []"
    by (simp add: new_events_def stalled_facts)
  from t ne have h: "last (new_events stalled_world ?wb) = Slept 10"
    by simp
  have ex: "new_events completing_world ?wc \<noteq> []
      \<and> is_exchange (last (new_events completing_world ?wc))"
    by (simp add: new_events_def polled_def after_sleep_def)
  from wait_round [where w = completing_world and max_wait = 3600 and file_id = "''f1''"
      and check_interval = 10 and c = sample_client and fuel = 360 and w' = ?wc
      and r = "Inr (status_record ''completed'')", THEN conjunct2, THEN conjunct2,
      THEN conjunct2, THEN conjunct1, THEN mp, OF completing_run] ex
  have i: "\<not> observes_pending (last (new_events completing_world ?wc))"
    by simp
  have pc: "(0::int) < 3600 \<and> ''f1'' \<noteq> [] \<and> (- 5::int) < 0
      \<and> observes_pending (poll_event sample_client ''f1'' completing_world)"
    by (simp add: observes_pending_def completing_world_def sample_world_def json_reply_def
        status_record_def response_result_def is_success_def)
  from wait_round [where w = completing_world and max_wait = 3600 and file_id = "''f1''"
      and check_interval = "- 5" and c = sample_client and fuel = 4,
      THEN conjunct2, THEN conjunct2, THEN conjunct2, THEN conjunct2, THEN mp, OF pc]
  have j: "wait_for_bulk_completion 5 sample_client ''f1'' (- 5) 3600 completing_world
       = Some (Inl ValueError, polled sample_client ''f1'' completing_world)"
    by (simp only: five)
  from a ca b d stalled_run e f g h ex i j show ?thesis
    by - ((elim conjE)?, (intro conjI; assumption))
qed

subsection \<open>Verifying a list of emails\<close>

lemma loop_append:
  "verify_emails_loop v d (xs @ ys) acc w =
     (case verify_emails_loop v d xs acc w of
        (Inr res, w1) \<Rightarrow> verify_emails_loop v d ys res w1
      | (Inl e, w1) \<Rightarrow> (Inl e, w1))"
  by (induction xs arbitrary: acc w)
    (auto split: prod.splits sum.splits error.splits)

lemma loop_single:
  "fst (v e w) = Inr s \<Longrightarrow> fst (verify_emails_loop v d [e] acc w) = Inr (AList.update e s acc)"
  "fst (v e w) = Inl (EmailListVerifyError m) \<Longrightarrow>
   fst (verify_emails_loop v d [e] acc w) = Inr (AList.update e (''error: '' @ m) acc)"
  by (auto simp: time_sleep_def split: prod.splits sum.splits error.splits)

lemma loop_total:
  assumes "\<And>e w err. fst (v e w) = Inl err \<Longrightarrow> \<exists>m. err = EmailListVerifyError m"
  shows "\<exists>res. fst (verify_emails_loop v d xs acc w) = Inr res"
proof (induction xs arbitrary: acc w)
  case Nil
  show ?case by simp
next
  case (Cons x xs)
  obtain r w1 where v: "v x w = (r, w1)"
    by (cases "v x w")
  show ?case
  proof (cases r)
    case (Inl err)
    with assms [of x w err] v obtain m where "err = EmailListVerifyError m"
      by auto
    with Inl v Cons.IH show ?thesis
      by simp
  next
    case (Inr s)
    with v Cons.IH show ?thesis
      by (simp add: time_sleep_def)
  qed
qed

lemma loop_cons:
  "fst (verify_emails_loop v d (x # xs) acc w) = Inr res \<Longrightarrow>
   \<exists>s w2. fst (verify_emails_loop v d xs (AList.update x s acc) w2) = Inr res"
  by (auto simp: time_sleep_def split: prod.splits sum.splits error.splits if_splits)

lemma loop_keys:
  "fst (verify_emails_loop v d xs acc w) = Inr res \<Longrightarrow> fst ` set res = fst ` set acc \<union> set xs"
proof (induction xs arbitrary: acc w)
  case Nil
  then show ?case by simp
next
  case (Cons x xs)
  from loop_cons [OF Cons.prems] obtain s w2
    where "fst (verify_emails_loop v d xs (AList.update x s acc) w2) = Inr res"
    by blast
  then have "fst ` set res = fst ` set (AList.update x s acc) \<union> set xs"
    by (rule Cons.IH)
  then show ?case
    by (simp add: dom_update)
qed

lemma loop_preserves:
  "fst (verify_emails_loop v d ys acc w) = Inr res \<Longrightarrow> k \<notin> set ys \<Longrightarrow>
   map_of res k = map_of acc k"
proof (induction ys arbitrary: acc w)
  case Nil
  then show ?case by simp
next
  case (Cons y ys)
  from loop_cons [OF Cons.prems(1)] obtain s w2
    where "fst (verify_emails_loop v d ys (AList.update y s acc) w2) = Inr res"
    by blast
  then have "map_of res k = map_of (AList.update y s acc) k"
    using Cons.prems(2) by (intro Cons.IH) simp_all
  with Cons.prems(2) show ?case
    by (simp add: update_conv')
qed

lemma polls_append [simp]: "polls (xs @ ys) = polls xs @ polls ys"
  by (simp add: polls_def)

lemma polls_simps [simp]:
  "polls [] = []"
  "polls (Slept d # evs) = polls evs"
  "polls (Exchange t rq rp # evs) = Exchange t rq rp # polls evs"
  by (simp_all add: polls_def)

lemma loop_trace:
  assumes errs: "\<And>e w err. fst (v e w) = Inl err \<Longrightarrow> \<exists>m. err = EmailListVerifyError m"
    and tr: "\<And>e w. \<exists>evs. events (snd (v e w)) = events w @ evs
               \<and> map email_param (polls evs) = (if e = [] then [] else [Some e])"
  shows "\<exists>evs. events (snd (verify_emails_loop v d xs acc w)) = events w @ evs
           \<and> map email_param (polls evs) = map Some (filter (\<lambda>e. e \<noteq> []) xs)"
proof (induction xs arbitrary: acc w)
  case Nil
  show ?case by simp
next
  case (Cons x xs)
  obtain r w1 where v: "v x w = (r, w1)"
    by (cases "v x w")
  from tr [of x w] v obtain evs1 where e1: "events w1 = events w @ evs1"
    and p1: "map email_param (polls evs1) = (if x = [] then [] else [Some x])"
    by auto
  have "\<exists>acc' w2 evs2. verify_emails_loop v d (x # xs) acc w = verify_emails_loop v d xs acc' w2
          \<and> events w2 = events w1 @ evs2 \<and> polls evs2 = []"
  proof (cases r)
    case (Inl err)
    with errs [of x w err] v obtain m where "err = EmailListVerifyError m"
      by auto
    with Inl v show ?thesis
      by (intro exI [of _ "AList.update x (''error: '' @ m) acc"] exI [of _ w1] exI [of _ "[]"])
        simp
  next
    case (Inr s)
    show ?thesis
    proof (cases "0 < d")
      case True
      with Inr v show ?thesis
        by (intro exI [of _ "AList.update x s acc"] exI [of _ "snd (time_sleep d w1)"]
            exI [of _ "[Slept d]"]) (simp add: time_sleep_def)
    next
      case False
      with Inr v show ?thesis
        by (intro exI [of _ "AList.update x s acc"] exI [of _ w1] exI [of _ "[]"]) simp
    qed
  qed
  then obtain acc' w2 evs2
    where step: "verify_emails_loop v d (x # xs) acc w = verify_emails_loop v d xs acc' w2"
      and e2: "events w2 = events w1 @ evs2" and p2: "polls evs2 = []"
    by blast
  from Cons.IH [of acc' w2] obtain evs3
    where e3: "events (snd (verify_emails_loop v d xs acc' w2)) = events w2 @ evs3"
      and p3: "map email_param (polls evs3) = map Some (filter (\<lambda>e. e \<noteq> []) xs)"
    by blast
  have "events (snd (verify_emails_loop v d (x # xs) acc w)) = events w @ (evs1 @ evs2 @ evs3)"
    by (simp only: step e3 e2 e1 append_assoc)
  moreover have "map email_param (polls (evs1 @ evs2 @ evs3))
                   = map Some (filter (\<lambda>e. e \<noteq> []) (x # xs))"
    by (simp add: p1 p2 p3)
  ultimately show ?case
    by blast
qed

lemma response_result_errors:
  "response_result rp = Inl err \<Longrightarrow> \<exists>m. err = EmailListVerifyError m"
  by (auto simp: response_result_def split: http_reply.splits if_splits option.splits)

lemma verify_email_errors:
  "fst (verify_email c e w) = Inl err \<Longrightarrow> \<exists>m. err = EmailListVerifyError m"
  by (auto simp: verify_email_def make_request_effect split: if_splits sum.splits json.splits
      dest: response_result_errors)

lemma verify_email_trace:
  "\<exists>evs. events (snd (verify_email c e w)) = events w @ evs
     \<and> map email_param (polls evs) = (if e = [] then [] else [Some e])"
  by (auto simp: verify_email_def make_request_effect split: sum.splits json.splits)

lemma sv_verify_email_errors:
  "fst (sv_verify_email c e w) = Inl err \<Longrightarrow> \<exists>m. err = EmailListVerifyError m"
  by (auto simp: sv_verify_email_def http_request_effect split: if_splits http_reply.splits)

lemma sv_verify_email_trace:
  "\<exists>evs. events (snd (sv_verify_email c e w)) = events w @ evs
     \<and> map email_param (polls evs) = (if e = [] then [] else [Some e])"
  by (auto simp: sv_verify_email_def http_request_effect split: http_reply.splits)

text \<open>
  What the loop makes of a list \<open>xs @ x # ys\<close>: it never fails, every email of the list
  gets an entry, the requests go out in the order of the list, and when \<open>x\<close> does not come
  again in \<open>ys\<close> its entry is what its own verification gave.
\<close>

lemma loop_entry:
  assumes errs: "\<And>e w err. fst (v e w) = Inl err \<Longrightarrow> \<exists>m. err = EmailListVerifyError m"
    and tr: "\<And>e w. \<exists>evs. events (snd (v e w)) = events w @ evs
               \<and> map email_param (polls evs) = (if e = [] then [] else [Some e])"
  shows "\<exists>res.
      fst (verify_emails_loop v d (xs @ x # ys) [] w) = Inr res
    \<and> fst ` set res = set (xs @ x # ys)
    \<and> map email_param (polls (new_events w (snd (verify_emails_loop v d (xs @ x # ys) [] w))))
        = map Some (filter (\<lambda>e. e \<noteq> []) (xs @ x # ys))
    \<and> (x \<notin> set ys \<longrightarrow>
         (\<forall>s. fst (v x (snd (verify_emails_loop v d xs [] w))) = Inr s \<longrightarrow> map_of res x = Some s)
       \<and> (\<forall>m. fst (v x (snd (verify_emails_loop v d xs [] w))) = Inl (EmailListVerifyError m) \<longrightarrow>
             map_of res x = Some (''error: '' @ m)))"
proof -
  have "\<exists>res. fst (verify_emails_loop v d (xs @ x # ys) [] w) = Inr res"
    by (rule loop_total) (rule errs)
  then obtain res where res: "fst (verify_emails_loop v d (xs @ x # ys) [] w) = Inr res"
    by blast
  have keys: "fst ` set res = set (xs @ x # ys)"
    using loop_keys [OF res] by simp
  have "\<exists>evs. events (snd (verify_emails_loop v d (xs @ x # ys) [] w)) = events w @ evs
           \<and> map email_param (polls evs) = map Some (filter (\<lambda>e. e \<noteq> []) (xs @ x # ys))"
    by (rule loop_trace) (erule errs, rule tr)
  then have trace:
    "map email_param (polls (new_events w (snd (verify_emails_loop v d (xs @ x # ys) [] w))))
        = map Some (filter (\<lambda>e. e \<noteq> []) (xs @ x # ys))"
    by (auto simp: new_events_def)
  have ent: "(\<forall>s. fst (v x (snd (verify_emails_loop v d xs [] w))) = Inr s \<longrightarrow> map_of res x = Some s)
       \<and> (\<forall>m. fst (v x (snd (verify_emails_loop v d xs [] w))) = Inl (EmailListVerifyError m) \<longrightarrow>
             map_of res x = Some (''error: '' @ m))"
    if fresh: "x \<notin> set ys"
  proof -
    obtain r0 w0 where run0: "verify_emails_loop v d xs [] w = (r0, w0)"
      by (cases "verify_emails_loop v d xs [] w")
    have "\<exists>res0. fst (verify_emails_loop v d xs [] w) = Inr res0"
      by (rule loop_total) (rule errs)
    with run0 obtain res0 where r0: "r0 = Inr res0"
      by auto
    have split: "verify_emails_loop v d (xs @ x # ys) [] w = verify_emails_loop v d (x # ys) res0 w0"
      by (simp only: loop_append run0 r0 prod.case sum.case)
    obtain entry where mid: "fst (verify_emails_loop v d [x] res0 w0) = Inr (AList.update x entry res0)"
      and ok: "\<forall>s. fst (v x w0) = Inr s \<longrightarrow> entry = s"
      and bad: "\<forall>m. fst (v x w0) = Inl (EmailListVerifyError m) \<longrightarrow> entry = ''error: '' @ m"
    proof (cases "fst (v x w0)")
      case (Inl err)
      with errs [of x w0 err] obtain m where m: "fst (v x w0) = Inl (EmailListVerifyError m)"
        by auto
      have "fst (verify_emails_loop v d [x] res0 w0) = Inr (AList.update x (''error: '' @ m) res0)"
        using m by (rule loop_single(2))
      with m show ?thesis
        by (intro that [of "''error: '' @ m"]) simp_all
    next
      case (Inr s)
      have "fst (verify_emails_loop v d [x] res0 w0) = Inr (AList.update x s res0)"
        using Inr by (rule loop_single(1))
      with Inr show ?thesis
        by (intro that [of s]) simp_all
    qed
    obtain w1 where run1: "verify_emails_loop v d [x] res0 w0 = (Inr (AList.update x entry res0), w1)"
      using mid by (cases "verify_emails_loop v d [x] res0 w0") simp
    have "verify_emails_loop v d ([x] @ ys) res0 w0
            = verify_emails_loop v d ys (AList.update x entry res0) w1"
      by (simp only: loop_append [of v d "[x]" ys] run1 prod.case sum.case)
    with res split have "fst (verify_emails_loop v d ys (AList.update x entry res0) w1) = Inr res"
      by simp
    from loop_preserves [OF this fresh] have "map_of res x = Some entry"
      by (simp add: update_conv')
    with ok bad run0 show ?thesis
      by simp
  qed
  from res keys trace ent show ?thesis
    by blast
qed

text \<open>
  The same address twice, the first request failing and the second answered \<open>ok\<close>: the
  first verification fails, and the entry of the address is \<open>ok\<close>.
\<close>

theorem verify_emails_duplicate_counterexample:
  "fst (verify_email sample_client ''a@x.com'' (sample_world [Http_Error ''boom'', text_reply ''ok'']))
     = Inl (EmailListVerifyError ''Request failed: boom'')
   \<and> fst (verify_emails sample_client [''a@x.com'', ''a@x.com''] 0
            (sample_world [Http_Error ''boom'', text_reply ''ok'']))
     = Inr [(''a@x.com'', ''ok'')]"
  by (simp add: verify_emails_def verify_email_def make_request_effect response_result_def
      sample_world_def text_reply_def is_success_def strip_def is_space_def)

text \<open>
  C8 (amended): for every list of emails \<open>verify_emails\<close> returns a dictionary and no
  exception escapes; every email of the list has an entry; the requests go out once for
  each non-empty element, in the order of the list (an empty element fails before any
  request); and the entry of an email is decided by its last occurrence in the list: it
  is \<open>error: <message>\<close> when that verification failed and the status it returned
  otherwise. An earlier occurrence of the same email is verified as well, and its outcome
  is overwritten. This holds for the client and for the minimal module, whose loop is the
  same over its own \<open>verify_email\<close>.
\<close>

theorem verify_emails_entries:
  "verify_emails c [] delay w = (Inr [], w)
   \<and> (\<exists>res.
        fst (verify_emails c (before @ email # after) delay w) = Inr res
      \<and> fst ` set res = set (before @ email # after)
      \<and> map email_param
            (polls (new_events w (snd (verify_emails c (before @ email # after) delay w))))
          = map Some (filter (\<lambda>e. e \<noteq> []) (before @ email # after))
      \<and> (email \<notin> set after \<longrightarrow>
           (\<forall>s. fst (verify_email c email (snd (verify_emails c before delay w))) = Inr s \<longrightarrow>
                  map_of res email = Some s)
         \<and> (\<forall>m. fst (verify_email c email (snd (verify_emails c before delay w)))
                    = Inl (EmailListVerifyError m) \<longrightarrow>
                  map_of res email = Some (''error: '' @ m))))
   \<and> sv_verify_emails c [] delay w = (Inr [], w)
   \<and> (\<exists>res.
        fst (sv_verify_emails c (before @ email # after) delay w) = Inr res
      \<and> fst ` set res = set (before @ email # after)
      \<and> map email_param
            (polls (new_events w (snd (sv_verify_emails c (before @ email # after) delay w))))
          = map Some (filter (\<lambda>e. e \<noteq> []) (before @ email # after))
      \<and> (email \<notin> set after \<longrightarrow>
           (\<forall>s. fst (sv_verify_email c email (snd (sv_verify_emails c before delay w))) = Inr s \<longrightarrow>
                  map_of res email = Some s)
         \<and> (\<forall>m. fst (sv_verify_email c email (snd (sv_verify_emails c before delay w)))
                    = Inl (EmailListVerifyError m) \<longrightarrow>
                  map_of res email = Some (''error: '' @ m))))"
proof -
  have a: "verify_emails c [] delay w = (Inr [], w)"
    by (simp add: verify_emails_def)
  have b: "\<exists>res.
        fst (verify_emails c (before @ email # after) delay w) = Inr res
      \<and> fst ` set res = set (before @ email # after)
      \<and> map email_param
            (polls (new_events w (snd (verify_emails c (before @ email # after) delay w))))
          = map Some (filter (\<lambda>e. e \<noteq> []) (before @ email # after))
      \<and> (email \<notin> set after \<longrightarrow>
           (\<forall>s. fst (verify_email c email (snd (verify_emails c before delay w))) = Inr s \<longrightarrow>
                  map_of res email = Some s)
         \<and> (\<forall>m. fst (verify_email c email (snd (verify_emails c before delay w)))
                    = Inl (EmailListVerifyError m) \<longrightarrow>
                  map_of res email = Some (''error: '' @ m)))"
    unfolding verify_emails_def
    by (rule loop_entry) (erule verify_email_errors, rule verify_email_trace)
  have c: "sv_verify_emails c [] delay w = (Inr [], w)"
    by (simp add: sv_verify_emails_def)
  have d: "\<exists>res.
        fst (sv_verify_emails c (before @ email # after) delay w) = Inr res
      \<and> fst ` set res = set (before @ email # after)
      \<and> map email_param
            (polls (new_events w (snd (sv_verify_emails c (before @ email # after) delay w))))
          = map Some (filter (\<lambda>e. e \<noteq> []) (before @ email # after))
      \<and> (email \<notin> set after \<longrightarrow>
           (\<forall>s. fst (sv_verify_email c email (snd (sv_verify_emails c before delay w))) = Inr s \<longrightarrow>
                  map_of res email = Some s)
         \<and> (\<forall>m. fst (sv_verify_email c email (snd (sv_verify_emails c before delay w)))
                    = Inl (EmailListVerifyError m) \<longrightarrow>
                  map_of res email = Some (''error: '' @ m)))"
    unfolding sv_verify_emails_def
    by (rule loop_entry) (erule sv_verify_email_errors, rule sv_verify_email_trace)
  from a b c d show ?thesis
    by (intro conjI)
qed

lemma mixed_first:
  "verify_emails sample_client [''a@x.com''] 0
     (sample_world [text_reply ''ok'', Http_Error ''boom'', text_reply ''role''])
   = (Inr [(''a@x.com'', ''ok'')],
      snd (verify_email sample_client ''a@x.com''
             (sample_world [text_reply ''ok'', Http_Error ''boom'', text_reply ''role''])))"
  by (simp add: verify_emails_def verify_email_def make_request_effect response_result_def
      sample_world_def text_reply_def is_success_def strip_def is_space_def)

lemma mixed_second:
  "fst (verify_email sample_client ''bad''
          (snd (verify_email sample_client ''a@x.com''
             (sample_world [text_reply ''ok'', Http_Error ''boom'', text_reply ''role'']))))
   = Inl (EmailListVerifyError ''Request failed: boom'')"
  by (simp add: verify_email_def make_request_effect response_result_def
      sample_world_def text_reply_def is_success_def strip_def is_space_def)

lemma mixed_third:
  "fst (verify_email sample_client ''c@y.org''
          (snd (verify_emails sample_client [''a@x.com'', ''bad''] 0
             (sample_world [text_reply ''ok'', Http_Error ''boom'', text_reply ''role'']))))
   = Inr ''role''"
  by (simp add: verify_emails_def verify_email_def make_request_effect response_result_def
      sample_world_def text_reply_def is_success_def strip_def is_space_def)

lemma sv_mixed_second:
  "fst (sv_verify_email sample_client ''bad''
          (snd (sv_verify_emails sample_client [''a@x.com''] 0
             (sample_world [text_reply ''ok'', Http_Error ''boom'', text_reply ''role'']))))
   = Inl (EmailListVerifyError ''Request failed: boom'')"
  by (simp add: sv_verify_emails_def sv_verify_email_def http_request_effect
      rq_raises_for_status_def sample_world_def text_reply_def strip_def is_space_def)

theorem verify_emails_entries_witness:
  "fst (verify_email sample_client ''bad''
          (snd (verify_emails sample_client [''a@x.com''] 0
             (sample_world [text_reply ''ok'', Http_Error ''boom'', text_reply ''role'']))))
     = Inl (EmailListVerifyError ''Request failed: boom'')
   \<and> (\<exists>res. fst (verify_emails sample_client [''a@x.com'', ''bad'', ''c@y.org''] 0
                    (sample_world [text_reply ''ok'', Http_Error ''boom'', text_reply ''role'']))
               = Inr res
          \<and> map_of res ''bad'' = Some ''error: Request failed: boom'')
   \<and> fst (verify_email sample_client ''c@y.org''
          (snd (verify_emails sample_client [''a@x.com'', ''bad''] 0
             (sample_world [text_reply ''ok'', Http_Error ''boom'', text_reply ''role'']))))
     = Inr ''role''
   \<and> (\<exists>res. fst (verify_emails sample_client [''a@x.com'', ''bad'', ''c@y.org''] 0
                    (sample_world [text_reply ''ok'', Http_Error ''boom'', text_reply ''role'']))
               = Inr res
          \<and> map_of res ''c@y.org'' = Some ''role'')
   \<and> fst (sv_verify_email sample_client ''bad''
          (snd (sv_verify_emails sample_client [''a@x.com''] 0
             (sample_world [text_reply ''ok'', Http_Error ''boom'', text_reply ''role'']))))
     = Inl (EmailListVerifyError ''Request failed: boom'')
   \<and> (\<exists>res. fst (sv_verify_emails sample_client [''a@x.com'', ''bad'', ''c@y.org''] 0
                    (sample_world [text_reply ''ok'', Http_Error ''boom'', text_reply ''role'']))
               = Inr res
          \<and> map_of res ''bad'' = Some ''error: Request failed: boom'')"
proof -
  let ?w = "sample_world [text_reply ''ok'', Http_Error ''boom'', text_reply ''role'']"
  have second: "fst (verify_email sample_client ''bad''
                   (snd (verify_emails sample_client [''a@x.com''] 0 ?w)))
                 = Inl (EmailListVerifyError ''Request failed: boom'')"
    by (simp only: mixed_first snd_conv mixed_second)
  have fresh: "''bad'' \<notin> set [''c@y.org'']" and last: "''c@y.org'' \<notin> set []"
    by simp_all
  note t = verify_emails_entries [of sample_client 0 ?w "[''a@x.com'']" "''bad''" "[''c@y.org'']"]
  from t [THEN conjunct2, THEN conjunct1]
  obtain res
    where r: "fst (verify_emails sample_client ([''a@x.com''] @ ''bad'' # [''c@y.org'']) 0 ?w) = Inr res"
      and e: "''bad'' \<notin> set [''c@y.org''] \<longrightarrow>
           (\<forall>s. fst (verify_email sample_client ''bad''
                        (snd (verify_emails sample_client [''a@x.com''] 0 ?w))) = Inr s \<longrightarrow>
                  map_of res ''bad'' = Some s)
         \<and> (\<forall>m. fst (verify_email sample_client ''bad''
                        (snd (verify_emails sample_client [''a@x.com''] 0 ?w)))
                    = Inl (EmailListVerifyError m) \<longrightarrow>
                  map_of res ''bad'' = Some (''error: '' @ m))"
    by (elim conjE exE)
  from e fresh second have "map_of res ''bad'' = Some (''error: '' @ ''Request failed: boom'')"
    by blast
  then have "map_of res ''bad'' = Some ''error: Request failed: boom''"
    by simp
  moreover from r
  have "fst (verify_emails sample_client [''a@x.com'', ''bad'', ''c@y.org''] 0 ?w) = Inr res"
    by simp
  ultimately have one: "\<exists>res. fst (verify_emails sample_client [''a@x.com'', ''bad'', ''c@y.org''] 0 ?w)
               = Inr res
          \<and> map_of res ''bad'' = Some ''error: Request failed: boom''"
    by blast
  from verify_emails_entries [of sample_client 0 ?w "[''a@x.com'', ''bad'']" "''c@y.org''" "[]",
      THEN conjunct2, THEN conjunct1]
  obtain res'
    where r': "fst (verify_emails sample_client ([''a@x.com'', ''bad''] @ ''c@y.org'' # []) 0 ?w)
                 = Inr res'"
      and e': "''c@y.org'' \<notin> set [] \<longrightarrow>
           (\<forall>s. fst (verify_email sample_client ''c@y.org''
                        (snd (verify_emails sample_client [''a@x.com'', ''bad''] 0 ?w))) = Inr s \<longrightarrow>
                  map_of res' ''c@y.org'' = Some s)
         \<and> (\<forall>m. fst (verify_email sample_client ''c@y.org''
                        (snd (verify_emails sample_client [''a@x.com'', ''bad''] 0 ?w)))
                    = Inl (EmailListVerifyError m) \<longrightarrow>
                  map_of res' ''c@y.org'' = Some (''error: '' @ m))"
    by (elim conjE exE)
  from e' last mixed_third have "map_of res' ''c@y.org'' = Some ''role''"
    by blast
  moreover from r'
  have "fst (verify_emails sample_client [''a@x.com'', ''bad'', ''c@y.org''] 0 ?w) = Inr res'"
    by simp
  ultimately have two: "\<exists>res. fst (verify_emails sample_client [''a@x.com'', ''bad'', ''c@y.org''] 0 ?w)
               = Inr res
          \<and> map_of res ''c@y.org'' = Some ''role''"
    by blast
  from t [THEN conjunct2, THEN conjunct2, THEN conjunct2]
  obtain sres
    where sr: "fst (sv_verify_emails sample_client ([''a@x.com''] @ ''bad'' # [''c@y.org'']) 0 ?w)
                 = Inr sres"
      and se: "''bad'' \<notin> set [''c@y.org''] \<longrightarrow>
           (\<forall>s. fst (sv_verify_email sample_client ''bad''
                        (snd (sv_verify_emails sample_client [''a@x.com''] 0 ?w))) = Inr s \<longrightarrow>
                  map_of sres ''bad'' = Some s)
         \<and> (\<forall>m. fst (sv_verify_email sample_client ''bad''
                        (snd (sv_verify_emails sample_client [''a@x.com''] 0 ?w)))
                    = Inl (EmailListVerifyError m) \<longrightarrow>
                  map_of sres ''bad'' = Some (''error: '' @ m))"
    by (elim conjE exE)
  from se fresh sv_mixed_second
  have "map_of sres ''bad'' = Some (''error: '' @ ''Request failed: boom'')"
    by blast
  then have "map_of sres ''bad'' = Some ''error: Request failed: boom''"
    by simp
  moreover from sr
  have "fst (sv_verify_emails sample_client [''a@x.com'', ''bad'', ''c@y.org''] 0 ?w) = Inr sres"
    by simp
  ultimately have three: "\<exists>res. fst (sv_verify_emails sample_client
                    [''a@x.com'', ''bad'', ''c@y.org''] 0 ?w) = Inr res
          \<and> map_of res ''bad'' = Some ''error: Request failed: boom''"
    by blast
  from second one mixed_third two sv_mixed_second three show ?thesis
    by (intro conjI)
qed

subsection \<open>HTTP 401\<close>

lemma unauthorized_result:
  "replies w (sent w) = Http_Response r \<Longrightarrow> status_code r = 401 \<Longrightarrow>
   response_result (replies w (sent w)) = Inl (EmailListVerifyError ''Unauthorized: invalid API key'')"
  by (simp add: response_result_def)

lemma answered_401_poll:
  "answered_401 (poll_event c file_id w) \<Longrightarrow>
   response_result (replies w (sent w)) = Inl (EmailListVerifyError ''Unauthorized: invalid API key'')"
  by (cases "replies w (sent w)") (simp_all add: poll_event_def response_result_def)

lemma wait_run_401:
  "wait_run c file_id check_interval max_wait start w r w' \<Longrightarrow>
   e \<in> set (polls (new_events w w')) \<Longrightarrow> answered_401 e \<Longrightarrow>
   r = Inl (EmailListVerifyError ''Unauthorized: invalid API key'')"
proof (induction rule: wait_run.induct)
  case (poll_again w kvs r w')
  then show ?case
    by (auto simp: new_events_again polls_def dest: answered_401_poll)
qed (auto simp: polls_def dest: answered_401_poll)

lemma verify_emails_401:
  assumes "email \<noteq> []" and "email \<notin> set after"
    and "replies (snd (verify_emails c before delay w)) (sent (snd (verify_emails c before delay w)))
           = Http_Response r"
    and "status_code r = 401"
  shows "\<exists>d. fst (verify_emails c (before @ email # after) delay w) = Inr d
           \<and> map_of d email = Some ''error: Unauthorized: invalid API key''"
proof -
  let ?w1 = "snd (verify_emails c before delay w)"
  have "fst (verify_email c email ?w1)
          = Inl (EmailListVerifyError ''Unauthorized: invalid API key'')"
    using assms(1) unauthorized_result [OF assms(3,4)]
    by (simp add: verify_email_def make_request_effect)
  moreover have "\<exists>d. fst (verify_emails c (before @ email # after) delay w) = Inr d
      \<and> fst ` set d = set (before @ email # after)
      \<and> map email_param
            (polls (new_events w (snd (verify_emails c (before @ email # after) delay w))))
          = map Some (filter (\<lambda>e. e \<noteq> []) (before @ email # after))
      \<and> (email \<notin> set after \<longrightarrow>
           (\<forall>s. fst (verify_email c email ?w1) = Inr s \<longrightarrow> map_of d email = Some s)
         \<and> (\<forall>m. fst (verify_email c email ?w1) = Inl (EmailListVerifyError m) \<longrightarrow>
                  map_of d email = Some (''error: '' @ m)))"
    unfolding verify_emails_def
    by (rule loop_entry) (erule verify_email_errors, rule verify_email_trace)
  then obtain d where "fst (verify_emails c (before @ email # after) delay w) = Inr d"
    and "\<forall>m. fst (verify_email c email ?w1) = Inl (EmailListVerifyError m) \<longrightarrow>
              map_of d email = Some (''error: '' @ m)"
    using assms(2) by blast
  ultimately show ?thesis
    by auto
qed


text \<open>
  \<open>verify_emails\<close> goes through the transport, and on a 401 it does not fail: it returns
  a dictionary whose entry is the error text. And the transport of the requests-based
  module reports a 401 as a failed request.
\<close>

theorem verify_emails_401_counterexample:
  "fst (verify_emails sample_client [''a@x.com''] 0 (sample_world [status_reply 401]))
     = Inr [(''a@x.com'', ''error: Unauthorized: invalid API key'')]
   \<and> fst (rq_make_request sample_client ''getCredits'' ''GET'' None None None
            (sample_world [status_reply 401]))
     = Inl (EmailListVerifyError ''Request failed: status 401'')"
  by (simp add: verify_emails_def verify_email_def make_request_effect response_result_def
      rq_make_request_effect rq_response_result_def rq_raises_for_status_def
      sample_world_def status_reply_def show_nat.simps digit_char_def)

text \<open>
  C4 (amended): in the client, a reply with status 401 makes the transport fail with
  \<open>Unauthorized: invalid API key\<close>, while every other status outside 2xx and every network
  failure makes it fail with \<open>Request failed: ...\<close>, which is a different error whatever
  its detail. \<open>verify_email\<close>, \<open>verify_email_detailed\<close>, \<open>get_credits\<close>, \<open>bulk_upload\<close>,
  \<open>get_bulk_status\<close> and \<open>download_bulk_result\<close> fail with the error of the transport
  when their request is answered 401, and so does \<open>wait_for_bulk_completion\<close> when any of
  its polls is. \<open>verify_emails\<close> does not fail: the entry of an email whose request is
  answered 401 is \<open>error: Unauthorized: invalid API key\<close>, unless the email comes again
  later in the list. The two requests-based modules report a 401 as \<open>Request failed\<close>.
\<close>

theorem unauthorized_surfaces:
  "(replies w (sent w) = Http_Response r \<and> status_code r = 401 \<longrightarrow>
       fst (make_request c endpoint meth ps dat fls w)
         = Inl (EmailListVerifyError ''Unauthorized: invalid API key'')
     \<and> (email \<noteq> [] \<longrightarrow>
           fst (verify_email c email w) = Inl (EmailListVerifyError ''Unauthorized: invalid API key'')
         \<and> fst (verify_email_detailed c email w)
             = Inl (EmailListVerifyError ''Unauthorized: invalid API key''))
     \<and> fst (get_credits c w) = Inl (EmailListVerifyError ''Unauthorized: invalid API key'')
     \<and> (fs w file_path = Some (Regular content) \<longrightarrow>
           fst (bulk_upload c file_path filename w)
             = Inl (EmailListVerifyError ''Unauthorized: invalid API key''))
     \<and> (file_id \<noteq> [] \<longrightarrow>
           fst (get_bulk_status c file_id w)
             = Inl (EmailListVerifyError ''Unauthorized: invalid API key'')
         \<and> (result_type = ''all'' \<or> result_type = ''clean'' \<longrightarrow>
              fst (download_bulk_result c file_id result_type w)
                = Inl (EmailListVerifyError ''Unauthorized: invalid API key''))))
   \<and> (replies w (sent w) = Http_Response r \<and> status_code r \<noteq> 401
         \<and> \<not> is_success (status_code r) \<longrightarrow>
       fst (make_request c endpoint meth ps dat fls w)
         = Inl (EmailListVerifyError (''Request failed: '' @ status_error r)))
   \<and> (replies w (sent w) = Http_Error msg \<longrightarrow>
       fst (make_request c endpoint meth ps dat fls w)
         = Inl (EmailListVerifyError (''Request failed: '' @ msg)))
   \<and> EmailListVerifyError ''Unauthorized: invalid API key''
         \<noteq> EmailListVerifyError (''Request failed: '' @ detail)
   \<and> (wait_for_bulk_completion fuel c file_id check_interval max_wait w = Some (res, w')
         \<and> (\<exists>e\<in>set (polls (new_events w w')). answered_401 e) \<longrightarrow>
       res = Inl (EmailListVerifyError ''Unauthorized: invalid API key''))
   \<and> (email \<noteq> [] \<and> email \<notin> set after
         \<and> replies (snd (verify_emails c before delay w))
               (sent (snd (verify_emails c before delay w))) = Http_Response r
         \<and> status_code r = 401 \<longrightarrow>
       (\<exists>d. fst (verify_emails c (before @ email # after) delay w) = Inr d
            \<and> map_of d email = Some ''error: Unauthorized: invalid API key''))
   \<and> (replies w (sent w) = Http_Response r \<and> status_code r = 401 \<longrightarrow>
       fst (rq_make_request c endpoint meth ps dat fls w)
         = Inl (EmailListVerifyError (''Request failed: '' @ status_error r))
     \<and> (email \<noteq> [] \<longrightarrow>
           fst (sv_verify_email c email w)
             = Inl (EmailListVerifyError (''Request failed: '' @ status_error r))))"
proof (intro conjI)
  show "replies w (sent w) = Http_Response r \<and> status_code r = 401 \<longrightarrow>
       fst (make_request c endpoint meth ps dat fls w)
         = Inl (EmailListVerifyError ''Unauthorized: invalid API key'')
     \<and> (email \<noteq> [] \<longrightarrow>
           fst (verify_email c email w) = Inl (EmailListVerifyError ''Unauthorized: invalid API key'')
         \<and> fst (verify_email_detailed c email w)
             = Inl (EmailListVerifyError ''Unauthorized: invalid API key''))
     \<and> fst (get_credits c w) = Inl (EmailListVerifyError ''Unauthorized: invalid API key'')
     \<and> (fs w file_path = Some (Regular content) \<longrightarrow>
           fst (bulk_upload c file_path filename w)
             = Inl (EmailListVerifyError ''Unauthorized: invalid API key''))
     \<and> (file_id \<noteq> [] \<longrightarrow>
           fst (get_bulk_status c file_id w)
             = Inl (EmailListVerifyError ''Unauthorized: invalid API key'')
         \<and> (result_type = ''all'' \<or> result_type = ''clean'' \<longrightarrow>
              fst (download_bulk_result c file_id result_type w)
                = Inl (EmailListVerifyError ''Unauthorized: invalid API key'')))"
  proof
    assume a: "replies w (sent w) = Http_Response r \<and> status_code r = 401"
    then have u: "response_result (replies w (sent w))
                    = Inl (EmailListVerifyError ''Unauthorized: invalid API key'')"
      by (simp add: response_result_def)
    have mk: "fst (make_request c endpoint meth ps dat fls w)
           = Inl (EmailListVerifyError ''Unauthorized: invalid API key'')"
      by (simp add: make_request_effect u)
    have ve: "fst (verify_email c email w) = Inl (EmailListVerifyError ''Unauthorized: invalid API key'')"
      if "email \<noteq> []"
      using that by (simp add: verify_email_def make_request_effect u)
    have vd: "fst (verify_email_detailed c email w)
             = Inl (EmailListVerifyError ''Unauthorized: invalid API key'')"
      if "email \<noteq> []"
      using that by (simp add: verify_email_detailed_def make_request_effect u)
    have gc: "fst (get_credits c w) = Inl (EmailListVerifyError ''Unauthorized: invalid API key'')"
      by (simp add: get_credits_def make_request_effect u)
    have bu: "fst (bulk_upload c file_path filename w)
             = Inl (EmailListVerifyError ''Unauthorized: invalid API key'')"
      if "fs w file_path = Some (Regular content)"
      using that by (simp add: bulk_upload_def Let_def make_request_effect u)
    have gs: "fst (get_bulk_status c file_id w)
             = Inl (EmailListVerifyError ''Unauthorized: invalid API key'')"
      if "file_id \<noteq> []"
      using that by (simp add: get_bulk_status_def make_request_effect u)
    have dl: "fst (download_bulk_result c file_id result_type w)
                = Inl (EmailListVerifyError ''Unauthorized: invalid API key'')"
      if "file_id \<noteq> []" "result_type = ''all'' \<or> result_type = ''clean''"
      using that by (auto simp add: download_bulk_result_def make_request_effect u)
    show "fst (make_request c endpoint meth ps dat fls w)
         = Inl (EmailListVerifyError ''Unauthorized: invalid API key'')
     \<and> (email \<noteq> [] \<longrightarrow>
           fst (verify_email c email w) = Inl (EmailListVerifyError ''Unauthorized: invalid API key'')
         \<and> fst (verify_email_detailed c email w)
             = Inl (EmailListVerifyError ''Unauthorized: invalid API key''))
     \<and> fst (get_credits c w) = Inl (EmailListVerifyError ''Unauthorized: invalid API key'')
     \<and> (fs w file_path = Some (Regular content) \<longrightarrow>
           fst (bulk_upload c file_path filename w)
             = Inl (EmailListVerifyError ''Unauthorized: invalid API key''))
     \<and> (file_id \<noteq> [] \<longrightarrow>
           fst (get_bulk_status c file_id w)
             = Inl (EmailListVerifyError ''Unauthorized: invalid API key'')
         \<and> (result_type = ''all'' \<or> result_type = ''clean'' \<longrightarrow>
              fst (download_bulk_result c file_id result_type w)
                = Inl (EmailListVerifyError ''Unauthorized: invalid API key'')))"
      by (intro conjI impI) (rule mk ve vd gc bu gs dl; assumption)+
  qed
  show "replies w (sent w) = Http_Response r \<and> status_code r \<noteq> 401
         \<and> \<not> is_success (status_code r) \<longrightarrow>
       fst (make_request c endpoint meth ps dat fls w)
         = Inl (EmailListVerifyError (''Request failed: '' @ status_error r))"
    by (simp add: make_request_effect response_result_def)
  show "replies w (sent w) = Http_Error msg \<longrightarrow>
       fst (make_request c endpoint meth ps dat fls w)
         = Inl (EmailListVerifyError (''Request failed: '' @ msg))"
    by (simp add: make_request_effect response_result_def)
  show "EmailListVerifyError ''Unauthorized: invalid API key''
         \<noteq> EmailListVerifyError (''Request failed: '' @ detail)"
    by simp
  show "wait_for_bulk_completion fuel c file_id check_interval max_wait w = Some (res, w')
         \<and> (\<exists>e\<in>set (polls (new_events w w')). answered_401 e) \<longrightarrow>
       res = Inl (EmailListVerifyError ''Unauthorized: invalid API key'')"
  proof
    assume a: "wait_for_bulk_completion fuel c file_id check_interval max_wait w = Some (res, w')
         \<and> (\<exists>e\<in>set (polls (new_events w w')). answered_401 e)"
    then have "wait_run c file_id check_interval max_wait (clock w) w res w'"
      unfolding wait_for_bulk_completion_def by (elim conjE) (rule wait_loop_run)
    from wait_run_401 [OF this] a
    show "res = Inl (EmailListVerifyError ''Unauthorized: invalid API key'')"
      by blast
  qed
  show "email \<noteq> [] \<and> email \<notin> set after
         \<and> replies (snd (verify_emails c before delay w))
               (sent (snd (verify_emails c before delay w))) = Http_Response r
         \<and> status_code r = 401 \<longrightarrow>
       (\<exists>d. fst (verify_emails c (before @ email # after) delay w) = Inr d
            \<and> map_of d email = Some ''error: Unauthorized: invalid API key'')"
    using verify_emails_401 [of email after c before delay w r] by blast
  show "replies w (sent w) = Http_Response r \<and> status_code r = 401 \<longrightarrow>
       fst (rq_make_request c endpoint meth ps dat fls w)
         = Inl (EmailListVerifyError (''Request failed: '' @ status_error r))
     \<and> (email \<noteq> [] \<longrightarrow>
           fst (sv_verify_email c email w)
             = Inl (EmailListVerifyError (''Request failed: '' @ status_error r)))"
    by (simp add: rq_make_request_effect rq_response_result_def rq_raises_for_status_def
        sv_verify_email_def http_request_effect)
qed

lemma expiring_run:
  "wait_for_bulk_completion 2 sample_client ''f1'' 10 3600 expiring_world
     = Some (Inl (EmailListVerifyError ''Unauthorized: invalid API key''),
             polled sample_client ''f1''
               (after_sleep 10 (polled sample_client ''f1'' expiring_world)))"
  by (simp add: wait_for_bulk_completion_def eval_nat_numeral get_bulk_status_poll
      time_sleep_effect expiring_world_def sample_world_def json_reply_def status_reply_def
      status_record_def response_result_def is_success_def polled_def after_sleep_def)

lemma expiring_log:
  "list_ex answered_401
     (polls (new_events expiring_world
        (polled sample_client ''f1''
           (after_sleep 10 (polled sample_client ''f1'' expiring_world)))))"
  by (simp add: polls_def new_events_def poll_event_def expiring_world_def sample_world_def
      json_reply_def status_reply_def polled_def after_sleep_def)

lemma show_401: "show_nat 401 = ''401''" "show_nat 500 = ''500''"
  by (simp_all add: show_nat.simps digit_char_def)

lemma expired_first:
  "verify_emails sample_client [''a@x.com''] 0
     (sample_world [text_reply ''ok'', status_reply 401, text_reply ''role''])
   = (Inr [(''a@x.com'', ''ok'')],
      snd (verify_email sample_client ''a@x.com''
             (sample_world [text_reply ''ok'', status_reply 401, text_reply ''role''])))"
  by (simp add: verify_emails_def verify_email_def make_request_effect response_result_def
      sample_world_def text_reply_def is_success_def strip_def is_space_def)

lemma expired_second:
  "replies (snd (verify_email sample_client ''a@x.com''
             (sample_world [text_reply ''ok'', status_reply 401, text_reply ''role''])))
     (sent (snd (verify_email sample_client ''a@x.com''
             (sample_world [text_reply ''ok'', status_reply 401, text_reply ''role'']))))
   = status_reply 401"
  by (simp add: verify_email_def make_request_effect response_result_def
      sample_world_def text_reply_def is_success_def strip_def is_space_def)

theorem unauthorized_surfaces_witness:
  "fst (make_request sample_client ''getCredits'' ''GET'' None None None
          (sample_world [status_reply 401]))
     = Inl (EmailListVerifyError ''Unauthorized: invalid API key'')
   \<and> fst (verify_email sample_client ''a@x.com'' (sample_world [status_reply 401]))
     = Inl (EmailListVerifyError ''Unauthorized: invalid API key'')
   \<and> fst (verify_email_detailed sample_client ''a@x.com'' (sample_world [status_reply 401]))
     = Inl (EmailListVerifyError ''Unauthorized: invalid API key'')
   \<and> fst (get_credits sample_client (sample_world [status_reply 401]))
     = Inl (EmailListVerifyError ''Unauthorized: invalid API key'')
   \<and> fst (bulk_upload sample_client ''emails.csv'' None (sample_world [status_reply 401]))
     = Inl (EmailListVerifyError ''Unauthorized: invalid API key'')
   \<and> fst (get_bulk_status sample_client ''f1'' (sample_world [status_reply 401]))
     = Inl (EmailListVerifyError ''Unauthorized: invalid API key'')
   \<and> fst (download_bulk_result sample_client ''f1'' ''clean'' (sample_world [status_reply 401]))
     = Inl (EmailListVerifyError ''Unauthorized: invalid API key'')
   \<and> fst (rq_make_request sample_client ''getCredits'' ''GET'' None None None
            (sample_world [status_reply 401]))
     = Inl (EmailListVerifyError ''Request failed: status 401'')
   \<and> fst (sv_verify_email sample_client ''a@x.com'' (sample_world [status_reply 401]))
     = Inl (EmailListVerifyError ''Request failed: status 401'')
   \<and> fst (make_request sample_client ''getCredits'' ''GET'' None None None
            (sample_world [status_reply 500]))
     = Inl (EmailListVerifyError ''Request failed: status 500'')
   \<and> fst (make_request sample_client ''getCredits'' ''GET'' None None None (sample_world []))
     = Inl (EmailListVerifyError ''Request failed: connection refused'')
   \<and> list_ex answered_401
        (polls (new_events expiring_world
           (polled sample_client ''f1''
              (after_sleep 10 (polled sample_client ''f1'' expiring_world)))))
   \<and> map_option fst (wait_for_bulk_completion 2 sample_client ''f1'' 10 3600 expiring_world)
     = Some (Inl (EmailListVerifyError ''Unauthorized: invalid API key''))
   \<and> (\<exists>d. fst (verify_emails sample_client [''a@x.com'', ''b@x.com'', ''c@y.org''] 0
                  (sample_world [text_reply ''ok'', status_reply 401, text_reply ''role'']))
             = Inr d
          \<and> map_of d ''b@x.com'' = Some ''error: Unauthorized: invalid API key'')"
proof -
  let ?w = "sample_world [status_reply 401]"
  let ?r = "\<lparr>status_code = 401, body_text = [], json_body = None,
             status_error = ''status '' @ show_nat 401\<rparr>"
  let ?wfive = "sample_world [status_reply 500]"
  let ?rfive = "\<lparr>status_code = 500, body_text = [], json_body = None,
             status_error = ''status '' @ show_nat 500\<rparr>"
  let ?wnone = "sample_world []"
  let ?wl = "sample_world [text_reply ''ok'', status_reply 401, text_reply ''role'']"
  let ?we = "polled sample_client ''f1''
               (after_sleep 10 (polled sample_client ''f1'' expiring_world))"
  have r: "replies ?w (sent ?w) = Http_Response ?r \<and> status_code ?r = 401"
    by (simp add: sample_world_def status_reply_def)
  have f: "fs ?w ''emails.csv'' = Some (Regular ''a@x.com'')"
    by (simp add: sample_world_def)
  have r5: "replies ?wfive (sent ?wfive) = Http_Response ?rfive \<and> status_code ?rfive \<noteq> 401
              \<and> \<not> is_success (status_code ?rfive)"
    by (simp add: sample_world_def status_reply_def is_success_def)
  have r0: "replies ?wnone (sent ?wnone) = Http_Error ''connection refused''"
    by (simp add: sample_world_def)
  have rl: "''b@x.com'' \<noteq> [] \<and> ''b@x.com'' \<notin> set [''c@y.org'']
         \<and> replies (snd (verify_emails sample_client [''a@x.com''] 0 ?wl))
               (sent (snd (verify_emails sample_client [''a@x.com''] 0 ?wl))) = Http_Response ?r
         \<and> status_code ?r = 401"
  proof -
    have "replies (snd (verify_emails sample_client [''a@x.com''] 0 ?wl))
               (sent (snd (verify_emails sample_client [''a@x.com''] 0 ?wl))) = status_reply 401"
      by (simp only: expired_first snd_conv expired_second)
    also have "\<dots> = Http_Response ?r"
      by (simp add: status_reply_def)
    finally have third:
      "replies (snd (verify_emails sample_client [''a@x.com''] 0 ?wl))
         (sent (snd (verify_emails sample_client [''a@x.com''] 0 ?wl))) = Http_Response ?r" .
    have "''b@x.com'' \<noteq> []" and "''b@x.com'' \<notin> set [''c@y.org'']"
      and "status_code ?r = 401"
      by simp_all
    with third show ?thesis
      by (intro conjI)
  qed
  have re: "wait_for_bulk_completion 2 sample_client ''f1'' 10 3600 expiring_world
              = Some (wait_result, ?we)
            \<and> (\<exists>e\<in>set (polls (new_events expiring_world ?we)). answered_401 e)"
    if "the (wait_for_bulk_completion 2 sample_client ''f1'' 10 3600 expiring_world)
          = (wait_result, ?we)" for wait_result
    using that expiring_log by (simp add: expiring_run list_ex_iff)
  note t1 = unauthorized_surfaces [where w = ?w and r = ?r and c = sample_client
      and endpoint = "''getCredits''" and meth = "''GET''" and ps = None and dat = None
      and fls = None and email = "''a@x.com''" and file_path = "''emails.csv''"
      and content = "''a@x.com''" and filename = None and file_id = "''f1''"
      and result_type = "''clean''"]
  have a: "fst (make_request sample_client ''getCredits'' ''GET'' None None None ?w)
         = Inl (EmailListVerifyError ''Unauthorized: invalid API key'')
     \<and> fst (verify_email sample_client ''a@x.com'' ?w)
         = Inl (EmailListVerifyError ''Unauthorized: invalid API key'')
     \<and> fst (verify_email_detailed sample_client ''a@x.com'' ?w)
         = Inl (EmailListVerifyError ''Unauthorized: invalid API key'')
     \<and> fst (get_credits sample_client ?w)
         = Inl (EmailListVerifyError ''Unauthorized: invalid API key'')
     \<and> fst (bulk_upload sample_client ''emails.csv'' None ?w)
         = Inl (EmailListVerifyError ''Unauthorized: invalid API key'')
     \<and> fst (get_bulk_status sample_client ''f1'' ?w)
         = Inl (EmailListVerifyError ''Unauthorized: invalid API key'')
     \<and> fst (download_bulk_result sample_client ''f1'' ''clean'' ?w)
         = Inl (EmailListVerifyError ''Unauthorized: invalid API key'')"
    using t1 [THEN conjunct1, THEN mp, OF r] f by simp
  have b: "fst (rq_make_request sample_client ''getCredits'' ''GET'' None None None ?w)
         = Inl (EmailListVerifyError ''Request failed: status 401'')
     \<and> fst (sv_verify_email sample_client ''a@x.com'' ?w)
         = Inl (EmailListVerifyError ''Request failed: status 401'')"
    using t1 [THEN conjunct2, THEN conjunct2, THEN conjunct2, THEN conjunct2, THEN conjunct2,
              THEN conjunct2, THEN mp, OF r]
    by (simp add: show_401)
  have c: "fst (make_request sample_client ''getCredits'' ''GET'' None None None ?wfive)
         = Inl (EmailListVerifyError ''Request failed: status 500'')"
    using unauthorized_surfaces [where w = ?wfive and r = ?rfive and c = sample_client
      and endpoint = "''getCredits''" and meth = "''GET''" and ps = None and dat = None
      and fls = None, THEN conjunct2, THEN conjunct1, THEN mp, OF r5]
    by (simp add: show_401)
  have d: "fst (make_request sample_client ''getCredits'' ''GET'' None None None ?wnone)
         = Inl (EmailListVerifyError ''Request failed: connection refused'')"
    using unauthorized_surfaces [where w = ?wnone and msg = "''connection refused''"
      and c = sample_client
      and endpoint = "''getCredits''" and meth = "''GET''" and ps = None and dat = None
      and fls = None, THEN conjunct2, THEN conjunct2, THEN conjunct1, THEN mp, OF r0]
    by simp
  obtain wait_result where
    wr: "the (wait_for_bulk_completion 2 sample_client ''f1'' 10 3600 expiring_world)
           = (wait_result, ?we)"
    by (simp add: expiring_run)
  have "wait_result = Inl (EmailListVerifyError ''Unauthorized: invalid API key'')"
    using unauthorized_surfaces [where w = expiring_world and w' = ?we and fuel = 2
      and c = sample_client and file_id = "''f1''" and check_interval = 10
      and max_wait = 3600 and res = wait_result,
      THEN conjunct2, THEN conjunct2, THEN conjunct2, THEN conjunct2, THEN conjunct1,
      THEN mp, OF re [OF wr]] .
  with re [OF wr]
  have e: "map_option fst (wait_for_bulk_completion 2 sample_client ''f1'' 10 3600 expiring_world)
     = Some (Inl (EmailListVerifyError ''Unauthorized: invalid API key''))"
    by simp
  have g: "\<exists>d. fst (verify_emails sample_client [''a@x.com'', ''b@x.com'', ''c@y.org''] 0 ?wl)
             = Inr d
          \<and> map_of d ''b@x.com'' = Some ''error: Unauthorized: invalid API key''"
    using unauthorized_surfaces [where w = ?wl and r = ?r and c = sample_client
      and email = "''b@x.com''" and before = "[''a@x.com'']" and after = "[''c@y.org'']"
      and delay = 0,
      THEN conjunct2, THEN conjunct2, THEN conjunct2, THEN conjunct2, THEN conjunct2,
      THEN conjunct1, THEN mp, OF rl]
    by simp
  from a b c d expiring_log e g show ?thesis
    by - ((elim conjE)?, (intro conjI; assumption))
qed

end
